theory Spec2Isabelle
  imports Main "HOL-Library.Char_ord" "HOL-Library.List_Lexorder" "HOL-Library.Multiset"
begin

section \<open>Outcomes and errors\<close>

text \<open>
  A Go function either returns or panics.  Errors are values: the package's sentinel
  errors, the payment failure of \<open>Subscribe\<close>, the decoded API error, and any other
  error (transport, decoding, database), which carries its text.
\<close>

datatype 'a outcome = Returns 'a | Panics

datatype error =
    ErrEventExists
  | ErrUnknownResource
  | ErrUnknownJurisdiction
  | ErrPaymentIntent string string
  | StripeError string string
  | OtherError string

section \<open>Params and its encoding (stripe.go)\<close>

text \<open>
  \<open>Params\<close> is \<open>map[string]interface{}\<close>.  A value is a string, an integer, a boolean,
  the nil interface, a nested \<open>Params\<close>, a slice, or a value of any other Go type
  (struct, pointer, float, a map that is not of type \<open>Params\<close>), which carries the text
  that \<open>%v\<close> prints for it.  A map is the list of its entries in the order in which
  \<open>range\<close> visits them; the keys of a map are distinct.
\<close>

datatype pval =
    VString string
  | VInt int
  | VBool bool
  | VNil
  | VOther string
  | VParams "(string \<times> pval) list"
  | VSlice "pval list"

type_synonym Params = "(string \<times> pval) list"

type_synonym pair = "string \<times> pval"

definition digit_char :: "nat \<Rightarrow> char" where
  "digit_char n = ''0123456789'' ! n"

function FormatNat :: "nat \<Rightarrow> string" where
  "FormatNat n = (if n < 10 then [digit_char n] else FormatNat (n div 10) @ [digit_char (n mod 10)])"
  by pat_completeness auto
termination
  by (relation "measure id") auto

definition FormatInt :: "int \<Rightarrow> string" where
  "FormatInt i = (if i < 0 then CHR ''-'' # FormatNat (nat (- i)) else FormatNat (nat i))"

fun Join :: "string list \<Rightarrow> string \<Rightarrow> string" where
  "Join [] sep = []"
| "Join [x] sep = x"
| "Join (x # y # ys) sep = x @ sep @ Join (y # ys) sep"

text \<open>
  \<open>fmt.Sprintf("%v", v)\<close>: a string prints as itself, a slice as \<open>[e1 e2]\<close>, a map as
  \<open>map[k1:v1 k2:v2]\<close> with the keys in sorted order.
\<close>

fun Sprintf_v :: "pval \<Rightarrow> string"
  and Sprintf_elems :: "pval list \<Rightarrow> string list"
  and Sprintf_entries :: "(string \<times> pval) list \<Rightarrow> (string \<times> string) list" where
  "Sprintf_v (VString s) = s"
| "Sprintf_v (VInt i) = FormatInt i"
| "Sprintf_v (VBool b) = (if b then ''true'' else ''false'')"
| "Sprintf_v VNil = ''<nil>''"
| "Sprintf_v (VOther s) = s"
| "Sprintf_v (VParams m) =
     ''map['' @ Join (map (\<lambda>(k, s). k @ '':'' @ s) (sort_key fst (Sprintf_entries m))) '' '' @ '']''"
| "Sprintf_v (VSlice xs) = ''['' @ Join (Sprintf_elems xs) '' '' @ '']''"
| "Sprintf_elems [] = []"
| "Sprintf_elems (x # xs) = Sprintf_v x # Sprintf_elems xs"
| "Sprintf_entries [] = []"
| "Sprintf_entries ((k, v) # m) = (k, Sprintf_v v) # Sprintf_entries m"

text \<open>\<open>url.QueryEscape\<close>: unreserved bytes stay, a space becomes \<open>+\<close>, every other byte
  becomes \<open>%XX\<close> in upper-case hexadecimal.\<close>

definition shouldEscape :: "char \<Rightarrow> bool" where
  "shouldEscape c =
     (let n = (of_char c :: nat) in
      \<not> ((97 \<le> n \<and> n \<le> 122) \<or> (65 \<le> n \<and> n \<le> 90) \<or> (48 \<le> n \<and> n \<le> 57)
         \<or> c = CHR ''-'' \<or> c = CHR ''_'' \<or> c = CHR ''.'' \<or> c = CHR ''~''))"

definition upperhex :: "nat \<Rightarrow> char" where
  "upperhex n = ''0123456789ABCDEF'' ! n"

fun QueryEscape :: "string \<Rightarrow> string" where
  "QueryEscape [] = []"
| "QueryEscape (c # cs) =
     (if shouldEscape c then
        (if c = CHR '' '' then CHR ''+'' # QueryEscape cs
         else CHR ''%'' # upperhex (of_char c div 16) # upperhex (of_char c mod 16) # QueryEscape cs)
      else c # QueryEscape cs)"

definition encode :: "pair \<Rightarrow> string" where
  "encode p = fst p @ ''='' @ QueryEscape (Sprintf_v (snd p))"

definition child_key :: "string \<Rightarrow> string \<Rightarrow> string" where
  "child_key parent k = (if parent \<noteq> [] then parent @ ''['' @ k @ '']'' else k)"

text \<open>
  \<open>encodeToPairs\<close> ranges over the map; \<open>encodeSliceToPairs\<close> runs its index \<open>i\<close> over
  the slice.  At a map entry whose value is the nil interface, \<open>reflect.TypeOf(v)\<close> is
  nil and \<open>.Kind()\<close> panics.
\<close>

fun encodeToPairs :: "string \<Rightarrow> (string \<times> pval) list \<Rightarrow> pair list outcome"
  and encodeSliceToPairs :: "string \<Rightarrow> nat \<Rightarrow> pval list \<Rightarrow> pair list outcome" where
  "encodeToPairs parent [] = Returns []"
| "encodeToPairs parent ((k, VParams p1) # rest) =
     (case encodeToPairs (child_key parent k) p1 of
        Panics \<Rightarrow> Panics
      | Returns ps \<Rightarrow>
          (case encodeToPairs parent rest of
             Panics \<Rightarrow> Panics
           | Returns qs \<Rightarrow> Returns (ps @ qs)))"
| "encodeToPairs parent ((k, VNil) # rest) = Panics"
| "encodeToPairs parent ((k, VSlice xs) # rest) =
     (case encodeSliceToPairs (child_key parent k) 0 xs of
        Panics \<Rightarrow> Panics
      | Returns ps \<Rightarrow>
          (case encodeToPairs parent rest of
             Panics \<Rightarrow> Panics
           | Returns qs \<Rightarrow> Returns (ps @ qs)))"
| "encodeToPairs parent ((k, v) # rest) =
     (case encodeToPairs parent rest of
        Panics \<Rightarrow> Panics
      | Returns qs \<Rightarrow> Returns ((child_key parent k, v) # qs))"
| "encodeSliceToPairs key i [] = Returns []"
| "encodeSliceToPairs key i (VParams p # rest) =
     (case encodeToPairs (key @ ''['' @ FormatInt (int i) @ '']'') p of
        Panics \<Rightarrow> Panics
      | Returns ps \<Rightarrow>
          (case encodeSliceToPairs key (Suc i) rest of
             Panics \<Rightarrow> Panics
           | Returns qs \<Rightarrow> Returns (ps @ qs)))"
| "encodeSliceToPairs key i (v # rest) =
     (case encodeSliceToPairs key (Suc i) rest of
        Panics \<Rightarrow> Panics
      | Returns qs \<Rightarrow> Returns ((key @ ''['' @ FormatInt (int i) @ '']'', v) # qs))"

definition Encode :: "Params \<Rightarrow> string outcome" where
  "Encode p =
     (case encodeToPairs [] p of
        Panics \<Rightarrow> Panics
      | Returns ps \<Rightarrow> Returns (Join (sort (map encode ps)) ''&''))"


section \<open>Resources (customer, invoice, payment method, subscription)\<close>

text \<open>
  Each resource embeds the provider's structure and adds the locally owned fields.
  Embedded pointers are taken to be non-nil, so an embedded structure is a field; the
  zero value stands for a freshly made \<open>&Customer{}\<close> or \<open>&Subscription{}\<close>.  The two
  pointers that \<open>Subscribe\<close> follows into a decoded response (latest invoice, payment
  intent) may be nil.  A \<open>time.Time\<close> is its Unix time in seconds, and
  \<open>sql.NullTime\<close> is an optional time.
\<close>

type_synonym time = int

record stripe_Customer =
  cus_ID :: string
  cus_Email :: string
  cus_Created :: int

record Customer =
  emb_cus :: stripe_Customer
  Jurisdiction :: string

record stripe_PaymentIntent =
  pi_ID :: string
  pi_Status :: string

record stripe_Invoice =
  inv_ID :: string
  inv_Customer :: stripe_Customer
  inv_Number :: string
  inv_AmountDue :: int
  inv_Status :: string
  inv_Created :: int
  inv_PaymentIntent :: "stripe_PaymentIntent option"

record Invoice =
  emb_inv :: stripe_Invoice
  Updated :: time

record stripe_Subscription =
  sub_ID :: string
  sub_Customer :: stripe_Customer
  sub_Status :: string
  sub_StartDate :: int
  sub_CurrentPeriodEnd :: int
  sub_LatestInvoice :: "stripe_Invoice option"

record Subscription =
  emb_sub :: stripe_Subscription
  EndsAt :: "time option"

record stripe_PaymentMethod =
  pm_ID :: string
  pm_Customer :: stripe_Customer
  pm_Type :: string
  pm_Created :: int

record PaymentMethod =
  emb_pm :: stripe_PaymentMethod
  Default :: bool

datatype Resource =
    RCustomer Customer
  | RInvoice Invoice
  | RPaymentMethod PaymentMethod
  | RSubscription Subscription
  | ROther

definition zero_stripe_Customer :: stripe_Customer where
  "zero_stripe_Customer = \<lparr>cus_ID = [], cus_Email = [], cus_Created = 0\<rparr>"

definition zero_Customer :: Customer where
  "zero_Customer = \<lparr>emb_cus = zero_stripe_Customer, Jurisdiction = []\<rparr>"

definition zero_stripe_Subscription :: stripe_Subscription where
  "zero_stripe_Subscription =
     \<lparr>sub_ID = [], sub_Customer = zero_stripe_Customer, sub_Status = [], sub_StartDate = 0,
      sub_CurrentPeriodEnd = 0, sub_LatestInvoice = None\<rparr>"

definition zero_Subscription :: Subscription where
  "zero_Subscription = \<lparr>emb_sub = zero_stripe_Subscription, EndsAt = None\<rparr>"

definition zero_stripe_PaymentMethod :: stripe_PaymentMethod where
  "zero_stripe_PaymentMethod =
     \<lparr>pm_ID = [], pm_Customer = zero_stripe_Customer, pm_Type = [], pm_Created = 0\<rparr>"

definition zero_PaymentMethod :: PaymentMethod where
  "zero_PaymentMethod = \<lparr>emb_pm = zero_stripe_PaymentMethod, Default = False\<rparr>"

definition zero_time :: time where
  "zero_time = 0"

section \<open>The client, the store interface and the world they act on\<close>

text \<open>
  A request is what \<open>Client.do\<close> sends; a response carries the status code and what its
  JSON body decodes to.  The remote side is a state \<open>'r\<close> with a transition function;
  the store is a state \<open>'st\<close> with the operations of the \<open>Store\<close> interface that the
  orchestrator and the dispatcher call.  The world holds both states and logs every
  request sent and every resource handed to \<open>Put\<close>.
\<close>

record request =
  req_method :: string
  req_uri :: string
  req_body :: "string option"

record stripe_TaxRate =
  tr_ID :: string
  tr_Jurisdiction :: string
  tr_DisplayName :: string

datatype body =
    JCustomer stripe_Customer
  | JTaxRate stripe_TaxRate
  | JPaymentMethod stripe_PaymentMethod
  | JSubscription stripe_Subscription
  | JError string string
  | JInvalid

record response =
  StatusCode :: int
  Status :: string
  Body :: body

record ('st, 'r) Stripe =
  Client_Do :: "'r \<Rightarrow> request \<Rightarrow> (error + response) \<times> 'r"
  Store_Subscription :: "'st \<Rightarrow> Customer \<Rightarrow> Subscription option \<times> bool \<times> error option"
  Store_Put :: "'st \<Rightarrow> Resource \<Rightarrow> error option \<times> 'st"
  Store_LogEvent :: "'st \<Rightarrow> string \<Rightarrow> error option \<times> 'st"

record ('st, 'r) world =
  store :: 'st
  remote :: 'r
  requests :: "request list"
  puts :: "Resource list"

definition respCode2xx :: "int \<Rightarrow> bool" where
  "respCode2xx code = (code \<ge> 200 \<and> code < 300)"

definition do :: "('st, 'r) Stripe \<Rightarrow> ('st, 'r) world \<Rightarrow> request
    \<Rightarrow> (error + response) \<times> ('st, 'r) world" where
  "do s w req =
     (let (res, r') = Client_Do s (remote w) req
      in (res, w\<lparr>remote := r', requests := requests w @ [req]\<rparr>))"

definition Client_Error :: "response \<Rightarrow> error" where
  "Client_Error resp =
     (case Body resp of JError m t \<Rightarrow> StripeError (Status resp) m | _ \<Rightarrow> OtherError ''json'')"

definition Post :: "('st, 'r) Stripe \<Rightarrow> ('st, 'r) world \<Rightarrow> string \<Rightarrow> Params
    \<Rightarrow> ((error + response) \<times> ('st, 'r) world) outcome" where
  "Post s w uri params =
     (case Encode params of
        Panics \<Rightarrow> Panics
      | Returns b \<Rightarrow> Returns (do s w \<lparr>req_method = ''POST'', req_uri = uri, req_body = Some b\<rparr>))"

definition Put :: "('st, 'r) Stripe \<Rightarrow> ('st, 'r) world \<Rightarrow> Resource
    \<Rightarrow> error option \<times> ('st, 'r) world" where
  "Put s w r =
     (let (err, st') = Store_Put s (store w) r
      in (err, w\<lparr>store := st', puts := puts w @ [r]\<rparr>))"

definition customerEndpoint :: string where
  "customerEndpoint = ''/v1/customers''"

definition paymentMethodEndpoint :: string where
  "paymentMethodEndpoint = ''/v1/payment_methods''"

definition subscriptionEndpoint :: string where
  "subscriptionEndpoint = ''/v1/subscriptions''"

definition Customer_Endpoint :: "Customer \<Rightarrow> string list \<Rightarrow> string" where
  "Customer_Endpoint c uris =
     (customerEndpoint @ (if cus_ID (emb_cus c) \<noteq> [] then ''/'' @ cus_ID (emb_cus c) else [])
        @ (if length uris > 0 then ''/'' else [])) @ Join uris ''/''"

definition PaymentMethod_Endpoint :: "PaymentMethod \<Rightarrow> string list \<Rightarrow> string" where
  "PaymentMethod_Endpoint p uris =
     paymentMethodEndpoint @ (if pm_ID (emb_pm p) \<noteq> [] then ''/'' @ pm_ID (emb_pm p) else [])
        @ (if length uris > 0 then ''/'' @ Join uris ''/'' else [])"

definition Subscription_Endpoint :: "Subscription \<Rightarrow> string list \<Rightarrow> string" where
  "Subscription_Endpoint sb uris =
     subscriptionEndpoint @ (if sub_ID (emb_sub sb) \<noteq> [] then ''/'' @ sub_ID (emb_sub sb) else [])
        @ (if length uris > 0 then ''/'' @ Join uris ''/'' else [])"

text \<open>The three \<open>post...\<close> helpers return the object they made together with the error.\<close>

definition postCustomer :: "('st, 'r) Stripe \<Rightarrow> ('st, 'r) world \<Rightarrow> string \<Rightarrow> Params
    \<Rightarrow> ((Customer \<times> error option) \<times> ('st, 'r) world) outcome" where
  "postCustomer s w uri params =
     (case Post s w uri params of
        Panics \<Rightarrow> Panics
      | Returns (Inl err, w') \<Rightarrow> Returns ((zero_Customer, Some err), w')
      | Returns (Inr resp, w') \<Rightarrow>
          if \<not> respCode2xx (StatusCode resp) then
            Returns ((zero_Customer, Some (Client_Error resp)), w')
          else
            (case Body resp of
               JCustomer x \<Rightarrow> Returns ((zero_Customer\<lparr>emb_cus := x\<rparr>, None), w')
             | _ \<Rightarrow> Returns ((zero_Customer, Some (OtherError ''json'')), w')))"

definition postPaymentMethod :: "('st, 'r) Stripe \<Rightarrow> ('st, 'r) world \<Rightarrow> string \<Rightarrow> Params
    \<Rightarrow> ((PaymentMethod \<times> error option) \<times> ('st, 'r) world) outcome" where
  "postPaymentMethod s w uri params =
     (case Post s w uri params of
        Panics \<Rightarrow> Panics
      | Returns (Inl err, w') \<Rightarrow> Returns ((zero_PaymentMethod, Some err), w')
      | Returns (Inr resp, w') \<Rightarrow>
          if \<not> respCode2xx (StatusCode resp) then
            Returns ((zero_PaymentMethod, Some (Client_Error resp)), w')
          else
            (case Body resp of
               JPaymentMethod x \<Rightarrow> Returns ((zero_PaymentMethod\<lparr>emb_pm := x\<rparr>, None), w')
             | _ \<Rightarrow> Returns ((zero_PaymentMethod, Some (OtherError ''json'')), w')))"

definition postSubscription :: "('st, 'r) Stripe \<Rightarrow> ('st, 'r) world \<Rightarrow> string \<Rightarrow> Params
    \<Rightarrow> ((Subscription \<times> error option) \<times> ('st, 'r) world) outcome" where
  "postSubscription s w uri params =
     (case Post s w uri params of
        Panics \<Rightarrow> Panics
      | Returns (Inl err, w') \<Rightarrow> Returns ((zero_Subscription, Some err), w')
      | Returns (Inr resp, w') \<Rightarrow>
          if \<not> respCode2xx (StatusCode resp) then
            Returns ((zero_Subscription, Some (Client_Error resp)), w')
          else
            (case Body resp of
               JSubscription x \<Rightarrow> Returns ((zero_Subscription\<lparr>emb_sub := x\<rparr>, None), w')
             | _ \<Rightarrow> Returns ((zero_Subscription, Some (OtherError ''json'')), w')))"

definition CreateSubscription :: "('st, 'r) Stripe \<Rightarrow> ('st, 'r) world \<Rightarrow> Params
    \<Rightarrow> ((Subscription \<times> error option) \<times> ('st, 'r) world) outcome" where
  "CreateSubscription s w params = postSubscription s w subscriptionEndpoint params"

text \<open>
  \<open>Customer.Update\<close> and \<open>Subscription.Update\<close> overwrite the receiver with the object
  made from the response (\<open>(*c) = (*c1)\<close>); they return the receiver as it is afterwards.
  \<open>PaymentMethod.Attach\<close> assigns the new object to its own variable \<open>pm\<close> only, so the
  caller's payment method stays as it was and only the error is returned.
\<close>

definition Customer_Update :: "('st, 'r) Stripe \<Rightarrow> ('st, 'r) world \<Rightarrow> Customer \<Rightarrow> Params
    \<Rightarrow> ((Customer \<times> error option) \<times> ('st, 'r) world) outcome" where
  "Customer_Update s w c params =
     (case postCustomer s w (Customer_Endpoint c []) params of
        Panics \<Rightarrow> Panics
      | Returns ((c1, Some err), w') \<Rightarrow> Returns ((c, Some err), w')
      | Returns ((c1, None), w') \<Rightarrow> Returns ((c1, None), w'))"

definition Subscription_Update :: "('st, 'r) Stripe \<Rightarrow> ('st, 'r) world \<Rightarrow> Subscription \<Rightarrow> Params
    \<Rightarrow> ((Subscription \<times> error option) \<times> ('st, 'r) world) outcome" where
  "Subscription_Update s w sb params =
     (case postSubscription s w (Subscription_Endpoint sb []) params of
        Panics \<Rightarrow> Panics
      | Returns ((s1, Some err), w') \<Rightarrow> Returns ((sb, Some err), w')
      | Returns ((s1, None), w') \<Rightarrow> Returns ((s1, None), w'))"

definition Attach :: "('st, 'r) Stripe \<Rightarrow> ('st, 'r) world \<Rightarrow> PaymentMethod \<Rightarrow> Customer
    \<Rightarrow> (error option \<times> ('st, 'r) world) outcome" where
  "Attach s w p c =
     (case postPaymentMethod s w (PaymentMethod_Endpoint p [''attach''])
             [(''customer'', VString (cus_ID (emb_cus c)))] of
        Panics \<Rightarrow> Panics
      | Returns ((p1, err), w') \<Rightarrow> Returns (err, w'))"

definition Reactivate :: "('st, 'r) Stripe \<Rightarrow> ('st, 'r) world \<Rightarrow> Subscription
    \<Rightarrow> ((Subscription \<times> error option) \<times> ('st, 'r) world) outcome" where
  "Reactivate s w sb =
     (case Subscription_Update s w sb [(''cancel_at_period_end'', VBool False)] of
        Panics \<Rightarrow> Panics
      | Returns ((sb1, Some err), w') \<Rightarrow> Returns ((sb1, Some err), w')
      | Returns ((sb1, None), w') \<Rightarrow> Returns ((sb1\<lparr>EndsAt := None\<rparr>, None), w'))"

definition Cancel :: "('st, 'r) Stripe \<Rightarrow> ('st, 'r) world \<Rightarrow> Subscription
    \<Rightarrow> ((Subscription \<times> error option) \<times> ('st, 'r) world) outcome" where
  "Cancel s w sb =
     (case Subscription_Update s w sb [(''cancel_at_period_end'', VBool True)] of
        Panics \<Rightarrow> Panics
      | Returns ((sb1, Some err), w') \<Rightarrow> Returns ((sb1, Some err), w')
      | Returns ((sb1, None), w') \<Rightarrow>
          Returns ((sb1\<lparr>EndsAt := Some (sub_CurrentPeriodEnd (emb_sub sb1))\<rparr>, None), w'))"

definition validSubscriptionStatuses :: "string set" where
  "validSubscriptionStatuses = {''all'', ''active'', ''trialing''}"

definition WithinGrace :: "time \<Rightarrow> Subscription option \<Rightarrow> bool" where
  "WithinGrace now sb =
     (case sb of
        None \<Rightarrow> False
      | Some x \<Rightarrow> (case EndsAt x of None \<Rightarrow> False | Some t \<Rightarrow> now < t))"

definition Valid :: "time \<Rightarrow> Subscription option \<Rightarrow> bool" where
  "Valid now sb =
     (case sb of
        None \<Rightarrow> False
      | Some x \<Rightarrow>
          (case EndsAt x of
             Some t \<Rightarrow> now < t
           | None \<Rightarrow> sub_Status (emb_sub x) \<in> validSubscriptionStatuses))"

section \<open>The subscription orchestrator (stripe.go)\<close>

fun assign :: "string \<Rightarrow> pval \<Rightarrow> Params \<Rightarrow> Params" where
  "assign k v [] = [(k, v)]"
| "assign k v ((k', v') # m) = (if k' = k then (k, v) # m else (k', v') # assign k v m)"

definition paymentOkStatuses :: "string set" where
  "paymentOkStatuses = {''processing'', ''succeeded''}"

text \<open>
  \<open>Subscribe\<close> returns the subscription and the error, and the customer and the payment
  method as the call leaves them (both are passed by pointer and written to).
  \<open>now\<close> is what \<open>time.Now()\<close> reads during the call.
\<close>

definition Subscribe :: "('st, 'r) Stripe \<Rightarrow> time \<Rightarrow> ('st, 'r) world \<Rightarrow> Customer \<Rightarrow> PaymentMethod
    \<Rightarrow> Params
    \<Rightarrow> ((Subscription option \<times> error option) \<times> Customer \<times> PaymentMethod \<times> ('st, 'r) world) outcome"
  where
  "Subscribe s now w c p params =
     (case Store_Subscription s (store w) c of
        (sub0, ok, Some err) \<Rightarrow> Returns ((sub0, Some err), c, p, w)
      | (sub0, ok, None) \<Rightarrow>
     (case Attach s w p c of
        Panics \<Rightarrow> Panics
      | Returns (Some err, w1) \<Rightarrow> Returns ((sub0, Some err), c, p, w1)
      | Returns (None, w1) \<Rightarrow>
     (case Customer_Update s w1 c
             [(''invoice_settings'',
               VParams [(''default_payment_method'', VString (pm_ID (emb_pm p)))])] of
        Panics \<Rightarrow> Panics
      | Returns ((c1, Some err), w2) \<Rightarrow> Returns ((sub0, Some err), c1, p, w2)
      | Returns ((c1, None), w2) \<Rightarrow>
     (let p1 = p\<lparr>emb_pm := (emb_pm p)\<lparr>pm_Customer := emb_cus c1\<rparr>, Default := True\<rparr> in
      case Put s w2 (RPaymentMethod p1) of
        (Some err, w3) \<Rightarrow> Returns ((sub0, Some err), c1, p1, w3)
      | (None, w3) \<Rightarrow>
          if ok \<and> Valid now sub0 then Returns ((sub0, None), c1, p1, w3)
          else
     (case CreateSubscription s w3
             (assign ''expand'' (VSlice [VString ''latest_invoice.payment_intent''])
                (assign ''customer'' (VString (cus_ID (emb_cus c1))) params)) of
        Panics \<Rightarrow> Panics
      | Returns ((sub1, Some err), w4) \<Rightarrow> Returns ((Some sub1, Some err), c1, p1, w4)
      | Returns ((sub1, None), w4) \<Rightarrow>
     (case sub_LatestInvoice (emb_sub sub1) of
        None \<Rightarrow> Panics
      | Some li \<Rightarrow>
     (case inv_PaymentIntent li of
        None \<Rightarrow> Panics
      | Some pi \<Rightarrow>
          if pi_Status pi \<in> paymentOkStatuses then
            (case Put s w4 (RSubscription sub1) of
               (Some err, w5) \<Rightarrow> Returns ((Some sub1, Some err), c1, p1, w5)
             | (None, w5) \<Rightarrow>
                 (let (err, w6) = Put s w5 (RInvoice \<lparr>emb_inv = li, Updated = zero_time\<rparr>)
                  in Returns ((Some sub1, err), c1, p1, w6)))
          else
            Returns ((Some sub1, Some (ErrPaymentIntent (inv_ID li) (pi_Status pi))),
                     c1, p1, w4))))))))"

definition Resubscribe :: "('st, 'r) Stripe \<Rightarrow> ('st, 'r) world \<Rightarrow> Customer
    \<Rightarrow> (error option \<times> ('st, 'r) world) outcome" where
  "Resubscribe s w c =
     (case Store_Subscription s (store w) c of
        (sub0, ok, Some err) \<Rightarrow> Returns (Some err, w)
      | (sub0, ok, None) \<Rightarrow>
          if \<not> ok then Returns (None, w)
          else
            (case sub0 of
               None \<Rightarrow> Panics
             | Some sb \<Rightarrow>
                 if EndsAt sb = None then Returns (None, w)
                 else
                   (case Reactivate s w sb of
                      Panics \<Rightarrow> Panics
                    | Returns ((sb1, Some err), w1) \<Rightarrow> Returns (Some err, w1)
                    | Returns ((sb1, None), w1) \<Rightarrow> Returns (Put s w1 (RSubscription sb1)))))"

definition Unsubscribe :: "('st, 'r) Stripe \<Rightarrow> time \<Rightarrow> ('st, 'r) world \<Rightarrow> Customer
    \<Rightarrow> ((Subscription option \<times> error option) \<times> ('st, 'r) world) outcome" where
  "Unsubscribe s now w c =
     (case Store_Subscription s (store w) c of
        (sub0, ok, Some err) \<Rightarrow> Returns ((None, Some err), w)
      | (sub0, ok, None) \<Rightarrow>
          if \<not> ok then Returns ((None, None), w)
          else if \<not> Valid now sub0 then Returns ((None, None), w)
          else
            (case sub0 of
               None \<Rightarrow> Panics
             | Some sb \<Rightarrow>
                 if EndsAt sb \<noteq> None then Returns ((Some sb, None), w)
                 else
                   (case Cancel s w sb of
                      Panics \<Rightarrow> Panics
                    | Returns ((sb1, Some err), w1) \<Rightarrow> Returns ((None, Some err), w1)
                    | Returns ((sb1, None), w1) \<Rightarrow>
                        (case Put s w1 (RSubscription sb1) of
                           (Some err, w2) \<Rightarrow> Returns ((None, Some err), w2)
                         | (None, w2) \<Rightarrow> Returns ((Some sb1, None), w2)))))"

section \<open>The in-memory store of the tests (TestStore)\<close>

text \<open>
  The four Go maps; a missing key of a slice-valued map reads as the empty slice.
\<close>

record TestStore =
  ts_customers :: "string \<rightharpoonup> Customer"
  ts_invoices :: "string \<Rightarrow> Invoice list"
  ts_paymentMethods :: "string \<Rightarrow> PaymentMethod list"
  ts_subscriptions :: "string \<rightharpoonup> Subscription"

definition newTestStore :: TestStore where
  "newTestStore =
     \<lparr>ts_customers = Map.empty, ts_invoices = (\<lambda>_. []), ts_paymentMethods = (\<lambda>_. []),
      ts_subscriptions = Map.empty\<rparr>"

definition TestStore_Subscription :: "TestStore \<Rightarrow> Customer
    \<Rightarrow> Subscription option \<times> bool \<times> error option" where
  "TestStore_Subscription ts c =
     (ts_subscriptions ts (cus_ID (emb_cus c)),
      ts_subscriptions ts (cus_ID (emb_cus c)) \<noteq> None, None)"

fun first_default :: "PaymentMethod list \<Rightarrow> PaymentMethod option" where
  "first_default [] = None"
| "first_default (p # ps) = (if Default p then Some p else first_default ps)"

definition TestStore_DefaultPaymentMethod :: "TestStore \<Rightarrow> Customer
    \<Rightarrow> PaymentMethod option \<times> bool \<times> error option" where
  "TestStore_DefaultPaymentMethod ts c =
     (first_default (ts_paymentMethods ts (cus_ID (emb_cus c))),
      first_default (ts_paymentMethods ts (cus_ID (emb_cus c))) \<noteq> None, None)"

definition TestStore_PaymentMethods :: "TestStore \<Rightarrow> Customer \<Rightarrow> PaymentMethod list \<times> error option"
  where
  "TestStore_PaymentMethods ts c = (ts_paymentMethods ts (cus_ID (emb_cus c)), None)"

fun TestStore_Put :: "TestStore \<Rightarrow> Resource \<Rightarrow> error option \<times> TestStore" where
  "TestStore_Put ts (RCustomer v) =
     (None, ts\<lparr>ts_customers := (ts_customers ts)(cus_Email (emb_cus v) \<mapsto> v)\<rparr>)"
| "TestStore_Put ts (RInvoice v) =
     (None, ts\<lparr>ts_invoices := (ts_invoices ts)
        (cus_ID (inv_Customer (emb_inv v)) := ts_invoices ts (cus_ID (inv_Customer (emb_inv v))) @ [v])\<rparr>)"
| "TestStore_Put ts (RSubscription v) =
     (None, ts\<lparr>ts_subscriptions := (ts_subscriptions ts)(cus_ID (sub_Customer (emb_sub v)) \<mapsto> v)\<rparr>)"
| "TestStore_Put ts (RPaymentMethod v) =
     (None, ts\<lparr>ts_paymentMethods := (ts_paymentMethods ts)
        (cus_ID (pm_Customer (emb_pm v)) :=
           ts_paymentMethods ts (cus_ID (pm_Customer (emb_pm v))) @ [v])\<rparr>)"
| "TestStore_Put ts ROther = (None, ts)"

definition TestStore_LogEvent :: "TestStore \<Rightarrow> string \<Rightarrow> error option \<times> TestStore" where
  "TestStore_LogEvent ts ev = (None, ts)"

text \<open>\<open>New(secret, store)\<close> with the test store, talking to a remote side \<open>cl\<close>.\<close>

definition New_TestStore :: "('r \<Rightarrow> request \<Rightarrow> (error + response) \<times> 'r) \<Rightarrow> (TestStore, 'r) Stripe"
  where
  "New_TestStore cl =
     \<lparr>Client_Do = cl, Store_Subscription = TestStore_Subscription, Store_Put = TestStore_Put,
      Store_LogEvent = TestStore_LogEvent\<rparr>"

text \<open>A request that creates a subscription: a POST to the subscriptions endpoint.\<close>

definition is_subscription_creation :: "request \<Rightarrow> bool" where
  "is_subscription_creation req = (req_method req = ''POST'' \<and> req_uri req = subscriptionEndpoint)"

definition default_pm_params :: "PaymentMethod \<Rightarrow> Params" where
  "default_pm_params p =
     [(''invoice_settings'', VParams [(''default_payment_method'', VString (pm_ID (emb_pm p)))])]"

definition as_default_of :: "PaymentMethod \<Rightarrow> Customer \<Rightarrow> PaymentMethod" where
  "as_default_of p c = p\<lparr>emb_pm := (emb_pm p)\<lparr>pm_Customer := emb_cus c\<rparr>, Default := True\<rparr>"

definition creation_params :: "Customer \<Rightarrow> Params \<Rightarrow> Params" where
  "creation_params c params =
     assign ''expand'' (VSlice [VString ''latest_invoice.payment_intent''])
       (assign ''customer'' (VString (cus_ID (emb_cus c))) params)"

section \<open>A scripted remote side and sample data\<close>

text \<open>
  A remote side that answers the attach, customer-update and subscription-creation
  requests for one customer; \<open>st\<close> is the payment-intent status it reports for a new
  subscription.  Every other request gets a 404.
\<close>

definition demo_stripe_customer :: stripe_Customer where
  "demo_stripe_customer = \<lparr>cus_ID = ''cus_1'', cus_Email = ''me@example.com'', cus_Created = 0\<rparr>"

definition demo_customer :: Customer where
  "demo_customer = \<lparr>emb_cus = demo_stripe_customer, Jurisdiction = ''uk''\<rparr>"

definition demo_pm :: PaymentMethod where
  "demo_pm =
     \<lparr>emb_pm = \<lparr>pm_ID = ''pm_1'', pm_Customer = zero_stripe_Customer, pm_Type = ''card'',
                pm_Created = 0\<rparr>,
      Default = False\<rparr>"

definition demo_invoice :: "string \<Rightarrow> stripe_Invoice" where
  "demo_invoice st =
     \<lparr>inv_ID = ''in_1'', inv_Customer = demo_stripe_customer, inv_Number = ''0001'',
      inv_AmountDue = 2000, inv_Status = ''open'', inv_Created = 0,
      inv_PaymentIntent = Some \<lparr>pi_ID = ''pi_1'', pi_Status = st\<rparr>\<rparr>"

definition demo_stripe_sub :: "string \<Rightarrow> stripe_Subscription" where
  "demo_stripe_sub st =
     \<lparr>sub_ID = ''sub_1'', sub_Customer = demo_stripe_customer, sub_Status = ''active'',
      sub_StartDate = 0, sub_CurrentPeriodEnd = 1000, sub_LatestInvoice = Some (demo_invoice st)\<rparr>"

definition demo_sub :: Subscription where
  "demo_sub = \<lparr>emb_sub = demo_stripe_sub ''succeeded'', EndsAt = None\<rparr>"

definition demo_client :: "string \<Rightarrow> unit \<Rightarrow> request \<Rightarrow> (error + response) \<times> unit" where
  "demo_client st r req =
     (if req_uri req = ''/v1/subscriptions'' then
        (Inr \<lparr>StatusCode = 200, Status = ''200 OK'', Body = JSubscription (demo_stripe_sub st)\<rparr>, r)
      else if req_uri req = ''/v1/customers/cus_1'' then
        (Inr \<lparr>StatusCode = 200, Status = ''200 OK'', Body = JCustomer demo_stripe_customer\<rparr>, r)
      else if req_uri req = ''/v1/payment_methods/pm_1/attach'' then
        (Inr \<lparr>StatusCode = 200, Status = ''200 OK'',
              Body = JPaymentMethod ((emb_pm demo_pm)\<lparr>pm_Customer := demo_stripe_customer\<rparr>)\<rparr>, r)
      else
        (Inr \<lparr>StatusCode = 404, Status = ''404 Not Found'',
              Body = JError ''no such resource'' ''invalid_request_error''\<rparr>, r))"

definition demo_world :: "TestStore \<Rightarrow> (TestStore, unit) world" where
  "demo_world ts = \<lparr>store = ts, remote = (), requests = [], puts = []\<rparr>"

definition store_with_sub :: "Subscription \<Rightarrow> TestStore" where
  "store_with_sub sb = newTestStore\<lparr>ts_subscriptions := [''cus_1'' \<mapsto> sb]\<rparr>"

definition demo_attach_req :: request where
  "demo_attach_req =
     \<lparr>req_method = ''POST'', req_uri = ''/v1/payment_methods/pm_1/attach'',
      req_body = Some ''customer=cus_1''\<rparr>"

definition demo_update_req :: request where
  "demo_update_req =
     \<lparr>req_method = ''POST'', req_uri = ''/v1/customers/cus_1'',
      req_body = Some ''invoice_settings[default_payment_method]=pm_1''\<rparr>"

definition demo_customer_updated :: Customer where
  "demo_customer_updated = \<lparr>emb_cus = demo_stripe_customer, Jurisdiction = []\<rparr>"

definition demo_create_req :: request where
  "demo_create_req =
     \<lparr>req_method = ''POST'', req_uri = ''/v1/subscriptions'',
      req_body = Some ''customer=cus_1&expand[0]=latest_invoice.payment_intent''\<rparr>"

definition demo_created :: "string \<Rightarrow> Subscription" where
  "demo_created st = \<lparr>emb_sub = demo_stripe_sub st, EndsAt = None\<rparr>"

section \<open>Payment methods behind pointers (the receiver of Attach and Update)\<close>

text \<open>
  \<open>Attach\<close> and \<open>Update\<close> have a pointer receiver, and what they do to the caller's
  payment method depends on which object is written.  Here the heap is explicit: a
  \<open>*PaymentMethod\<close> is an index into the cells of \<open>PaymentMethod\<close> structures, each
  holding the pointer to its embedded \<open>stripe.PaymentMethod\<close> and the \<open>Default\<close> flag;
  the embedded structures live in a second array.  \<open>None\<close> is the nil pointer, and
  following it panics.
\<close>

record pm_cell =
  cell_emb :: "nat option"
  cell_Default :: bool

record heap =
  h_pm :: "pm_cell list"
  h_spm :: "stripe_PaymentMethod list"

definition new_spm :: "heap \<Rightarrow> stripe_PaymentMethod \<Rightarrow> nat \<times> heap" where
  "new_spm h v = (length (h_spm h), h\<lparr>h_spm := h_spm h @ [v]\<rparr>)"

definition new_pm :: "heap \<Rightarrow> pm_cell \<Rightarrow> nat \<times> heap" where
  "new_pm h v = (length (h_pm h), h\<lparr>h_pm := h_pm h @ [v]\<rparr>)"

definition deref :: "heap \<Rightarrow> nat option \<Rightarrow> PaymentMethod option" where
  "deref h ptr =
     (case ptr of
        None \<Rightarrow> None
      | Some a \<Rightarrow>
          if a < length (h_pm h) then
            (case cell_emb (h_pm h ! a) of
               None \<Rightarrow> None
             | Some e \<Rightarrow>
                 if e < length (h_spm h) then
                   Some \<lparr>emb_pm = h_spm h ! e, Default = cell_Default (h_pm h ! a)\<rparr>
                 else None)
          else None)"

text \<open>
  \<open>postPaymentMethod\<close> makes a new \<open>PaymentMethod\<close> with a new embedded structure,
  decodes the response into that embedded structure and returns the pointer.
\<close>

definition ptr_postPaymentMethod :: "('st, 'r) Stripe \<Rightarrow> ('st, 'r) world \<Rightarrow> heap \<Rightarrow> string \<Rightarrow> Params
    \<Rightarrow> ((nat option \<times> error option) \<times> ('st, 'r) world \<times> heap) outcome" where
  "ptr_postPaymentMethod s w h uri params =
     (let (e, h1) = new_spm h zero_stripe_PaymentMethod;
          (a, h2) = new_pm h1 \<lparr>cell_emb = Some e, cell_Default = False\<rparr>
      in case Post s w uri params of
           Panics \<Rightarrow> Panics
         | Returns (Inl err, w') \<Rightarrow> Returns ((Some a, Some err), w', h2)
         | Returns (Inr resp, w') \<Rightarrow>
             if \<not> respCode2xx (StatusCode resp) then
               Returns ((Some a, Some (Client_Error resp)), w', h2)
             else
               (case Body resp of
                  JPaymentMethod x \<Rightarrow>
                    Returns ((Some a, None), w', h2\<lparr>h_spm := (h_spm h2)[e := x]\<rparr>)
                | _ \<Rightarrow> Returns ((Some a, Some (OtherError ''json'')), w', h2)))"

text \<open>
  \<open>pm, err = postPaymentMethod(...)\<close> assigns to the method's own variable \<open>pm\<close>; the
  methods return the error, and the heap as the call leaves it.
\<close>

definition ptr_Attach :: "('st, 'r) Stripe \<Rightarrow> ('st, 'r) world \<Rightarrow> heap \<Rightarrow> nat option \<Rightarrow> Customer
    \<Rightarrow> (error option \<times> ('st, 'r) world \<times> heap) outcome" where
  "ptr_Attach s w h pm c =
     (case deref h pm of
        None \<Rightarrow> Panics
      | Some p \<Rightarrow>
          (case ptr_postPaymentMethod s w h (PaymentMethod_Endpoint p [''attach''])
                  [(''customer'', VString (cus_ID (emb_cus c)))] of
             Panics \<Rightarrow> Panics
           | Returns ((pm', err), w', h') \<Rightarrow> Returns (err, w', h')))"

definition ptr_Update :: "('st, 'r) Stripe \<Rightarrow> ('st, 'r) world \<Rightarrow> heap \<Rightarrow> nat option \<Rightarrow> Params
    \<Rightarrow> (error option \<times> ('st, 'r) world \<times> heap) outcome" where
  "ptr_Update s w h pm params =
     (case deref h pm of
        None \<Rightarrow> Panics
      | Some p \<Rightarrow>
          (case ptr_postPaymentMethod s w h (PaymentMethod_Endpoint p []) params of
             Panics \<Rightarrow> Panics
           | Returns ((pm', err), w', h') \<Rightarrow> Returns (err, w', h')))"

definition demo_heap :: heap where
  "demo_heap = \<lparr>h_pm = [\<lparr>cell_emb = Some 0, cell_Default = False\<rparr>], h_spm = [emb_pm demo_pm]\<rparr>"

section \<open>The PostgreSQL store (events and payment methods)\<close>

text \<open>
  A table is the list of its rows.  Every statement sent to the database may fail:
  \<open>db_fault\<close> tells, for the n-th statement sent, whether it fails and with which
  error, and \<open>db_clock\<close> counts the statements sent.  The \<open>id\<close> column of each table is
  declared \<open>UNIQUE\<close>, so an insert of an id already present is refused.
\<close>

record pm_row =
  row_id :: string
  row_customer_id :: string
  row_type :: string
  row_is_default :: bool
  row_created :: int

record PSQL =
  db_events :: "string list"
  db_payment_methods :: "pm_row list"
  db_fault :: "nat \<Rightarrow> error option"
  db_clock :: nat

definition statement :: "PSQL \<Rightarrow> error option \<times> PSQL" where
  "statement p = (db_fault p (db_clock p), p\<lparr>db_clock := Suc (db_clock p)\<rparr>)"

definition PSQL_LogEvent :: "PSQL \<Rightarrow> string \<Rightarrow> error option \<times> PSQL" where
  "PSQL_LogEvent p ev =
     (case statement p of
        (Some err, p1) \<Rightarrow> (Some err, p1)
      | (None, p1) \<Rightarrow>
          if length (filter (\<lambda>x. x = ev) (db_events p1)) > 0 then (Some ErrEventExists, p1)
          else
            (case statement p1 of
               (Some err, p2) \<Rightarrow> (Some err, p2)
             | (None, p2) \<Rightarrow> (None, p2\<lparr>db_events := db_events p2 @ [ev]\<rparr>)))"

definition select_id :: "pm_row list \<Rightarrow> string \<Rightarrow> string" where
  "select_id rows i = (case filter (\<lambda>r. row_id r = i) rows of [] \<Rightarrow> [] | r # _ \<Rightarrow> row_id r)"

definition clear_defaults :: "string \<Rightarrow> pm_row list \<Rightarrow> pm_row list" where
  "clear_defaults cid rows =
     map (\<lambda>r. if row_customer_id r = cid then r\<lparr>row_is_default := False\<rparr> else r) rows"

definition insert_row :: "PSQL \<Rightarrow> pm_row \<Rightarrow> error option \<times> PSQL" where
  "insert_row p r =
     (case statement p of
        (Some err, p1) \<Rightarrow> (Some err, p1)
      | (None, p1) \<Rightarrow>
          if row_id r \<in> set (map row_id (db_payment_methods p1)) then
            (Some (OtherError ''unique_violation''), p1)
          else (None, p1\<lparr>db_payment_methods := db_payment_methods p1 @ [r]\<rparr>))"

definition putPaymentMethod :: "PSQL \<Rightarrow> PaymentMethod \<Rightarrow> error option \<times> PSQL" where
  "putPaymentMethod p v =
     (case (if Default v then
              (case statement p of
                 (Some err, p1) \<Rightarrow> (Some err, p1)
               | (None, p1) \<Rightarrow>
                   (None, p1\<lparr>db_payment_methods :=
                      clear_defaults (cus_ID (pm_Customer (emb_pm v))) (db_payment_methods p1)\<rparr>))
            else (None, p)) of
        (Some err, p2) \<Rightarrow> (Some err, p2)
      | (None, p2) \<Rightarrow>
          (case statement p2 of
             (Some err, p3) \<Rightarrow> (Some err, p3)
           | (None, p3) \<Rightarrow>
               if select_id (db_payment_methods p3) (pm_ID (emb_pm v)) = [] then
                 insert_row p3
                   \<lparr>row_id = pm_ID (emb_pm v), row_customer_id = cus_ID (pm_Customer (emb_pm v)),
                    row_type = pm_Type (emb_pm v), row_is_default = Default v,
                    row_created = pm_Created (emb_pm v)\<rparr>
               else (None, p3)))"

definition defaults_of :: "string \<Rightarrow> pm_row list \<Rightarrow> pm_row list" where
  "defaults_of cid rows = filter (\<lambda>r. row_customer_id r = cid \<and> row_is_default r) rows"

fun putPaymentMethods :: "PSQL \<Rightarrow> PaymentMethod list \<Rightarrow> PSQL" where
  "putPaymentMethods p [] = p"
| "putPaymentMethods p (v # vs) = putPaymentMethods (snd (putPaymentMethod p v)) vs"

definition at_most_one_default :: "pm_row list \<Rightarrow> bool" where
  "at_most_one_default rows =
     list_all (\<lambda>r. length (defaults_of (row_customer_id r) rows) \<le> 1) rows"

definition newPSQL :: PSQL where
  "newPSQL = \<lparr>db_events = [], db_payment_methods = [], db_fault = (\<lambda>_. None), db_clock = 0\<rparr>"

section \<open>The webhook dispatcher (hook.go)\<close>

text \<open>
  A request is what \<open>ioutil.ReadAll\<close> makes of its body and its signature header.
  \<open>webhook.ConstructEvent\<close> belongs to the provider's library and is a parameter.  A
  registered handler is any Go function; it is named by a value of \<open>'h\<close>, and calling
  it is recorded.  The store field holds the \<open>LogEvent\<close> method of the store, or
  \<open>None\<close> for a nil store.  The dispatcher's own \<open>WriteHeader\<close> is the status returned.
\<close>

record Event =
  ev_ID :: string
  ev_Type :: string

record hook_request =
  rq_body :: "error + string"
  rq_signature :: string

record ('st, 'h) HookHandler =
  hh_secret :: string
  hh_store :: "('st \<Rightarrow> string \<Rightarrow> error option \<times> 'st) option"
  hh_events :: "string \<rightharpoonup> 'h"

record ('st, 'h) hook_state =
  hk_store :: 'st
  hk_errh :: "error list"
  hk_invoked :: "('h \<times> Event) list"

definition NewHookHandler :: "string \<Rightarrow> ('st \<Rightarrow> string \<Rightarrow> error option \<times> 'st) option
    \<Rightarrow> ('st, 'h) HookHandler" where
  "NewHookHandler secret st = \<lparr>hh_secret = secret, hh_store = st, hh_events = Map.empty\<rparr>"

definition Handle :: "('st, 'h) HookHandler \<Rightarrow> string \<Rightarrow> 'h \<Rightarrow> ('st, 'h) HookHandler" where
  "Handle h event fn = h\<lparr>hh_events := (hh_events h)(event \<mapsto> fn)\<rparr>"

definition dispatch :: "('st, 'h) HookHandler \<Rightarrow> Event \<Rightarrow> ('st, 'h) hook_state
    \<Rightarrow> nat option \<times> ('st, 'h) hook_state" where
  "dispatch h event st =
     (case hh_events h (ev_Type event) of
        Some fn \<Rightarrow> (None, st\<lparr>hk_invoked := hk_invoked st @ [(fn, event)]\<rparr>)
      | None \<Rightarrow> (Some 200, st))"

definition HandlerFunc :: "(string \<Rightarrow> string \<Rightarrow> string \<Rightarrow> error + Event) \<Rightarrow> ('st, 'h) HookHandler
    \<Rightarrow> ('st, 'h) hook_state \<Rightarrow> hook_request \<Rightarrow> nat option \<times> ('st, 'h) hook_state" where
  "HandlerFunc ConstructEvent h st r =
     (case rq_body r of
        Inl err \<Rightarrow> (Some 503, st\<lparr>hk_errh := hk_errh st @ [err]\<rparr>)
      | Inr payload \<Rightarrow>
          (case ConstructEvent payload (rq_signature r) (hh_secret h) of
             Inl err \<Rightarrow> (Some 400, st\<lparr>hk_errh := hk_errh st @ [err]\<rparr>)
           | Inr event \<Rightarrow>
               (case hh_store h of
                  Some LogEvent \<Rightarrow>
                    (case LogEvent (hk_store st) (ev_ID event) of
                       (Some err, st') \<Rightarrow>
                         if err \<noteq> ErrEventExists then
                           (Some 500, st\<lparr>hk_store := st', hk_errh := hk_errh st @ [err]\<rparr>)
                         else (Some 202, st\<lparr>hk_store := st'\<rparr>)
                     | (None, st') \<Rightarrow> dispatch h event (st\<lparr>hk_store := st'\<rparr>))
                | None \<Rightarrow> dispatch h event st)))"

text \<open>Sample data: a verifier that accepts the signature \<open>''good''\<close> and reads the
  payload as \<open>id type\<close>, and two deliveries of one event.\<close>

definition demo_verify :: "string \<Rightarrow> string \<Rightarrow> string \<Rightarrow> error + Event" where
  "demo_verify payload sig secret =
     (if sig = ''good'' then
        Inr \<lparr>ev_ID = takeWhile (\<lambda>c. c \<noteq> CHR '' '') payload,
             ev_Type = drop 1 (dropWhile (\<lambda>c. c \<noteq> CHR '' '') payload)\<rparr>
      else Inl (OtherError ''signature''))"

definition demo_delivery :: hook_request where
  "demo_delivery = \<lparr>rq_body = Inr ''evt_1 invoice.paid'', rq_signature = ''good''\<rparr>"

definition demo_event :: Event where
  "demo_event = \<lparr>ev_ID = ''evt_1'', ev_Type = ''invoice.paid''\<rparr>"

definition demo_hook_state :: "'st \<Rightarrow> ('st, nat) hook_state" where
  "demo_hook_state st = \<lparr>hk_store = st, hk_errh = [], hk_invoked = []\<rparr>"

definition demo_pm_of :: "string \<Rightarrow> PaymentMethod" where
  "demo_pm_of i =
     \<lparr>emb_pm = \<lparr>pm_ID = i, pm_Customer = demo_stripe_customer, pm_Type = ''card'', pm_Created = 0\<rparr>,
      Default = True\<rparr>"

section \<open>The encoder without its panic, and maps that differ in iteration order\<close>

text \<open>
  The encoder visits every entry unless it has panicked, and it panics at the first map
  entry holding the nil interface.  \<open>no_nil_entry\<close> says that no entry the encoder
  reaches holds it, and \<open>pairs_of\<close> lists the pairs the encoder then produces.
\<close>

fun no_nil_entry :: "(string \<times> pval) list \<Rightarrow> bool"
  and no_nil_elem :: "pval list \<Rightarrow> bool" where
  "no_nil_entry [] = True"
| "no_nil_entry ((k, VParams p1) # rest) = (no_nil_entry p1 \<and> no_nil_entry rest)"
| "no_nil_entry ((k, VNil) # rest) = False"
| "no_nil_entry ((k, VSlice xs) # rest) = (no_nil_elem xs \<and> no_nil_entry rest)"
| "no_nil_entry ((k, v) # rest) = no_nil_entry rest"
| "no_nil_elem [] = True"
| "no_nil_elem (VParams p # rest) = (no_nil_entry p \<and> no_nil_elem rest)"
| "no_nil_elem (v # rest) = no_nil_elem rest"

fun pairs_of :: "string \<Rightarrow> (string \<times> pval) list \<Rightarrow> pair list"
  and slice_pairs_of :: "string \<Rightarrow> nat \<Rightarrow> pval list \<Rightarrow> pair list" where
  "pairs_of parent [] = []"
| "pairs_of parent ((k, VParams p1) # rest) = pairs_of (child_key parent k) p1 @ pairs_of parent rest"
| "pairs_of parent ((k, VSlice xs) # rest) =
     slice_pairs_of (child_key parent k) 0 xs @ pairs_of parent rest"
| "pairs_of parent ((k, v) # rest) = (child_key parent k, v) # pairs_of parent rest"
| "slice_pairs_of key i [] = []"
| "slice_pairs_of key i (VParams p # rest) =
     pairs_of (key @ ''['' @ FormatInt (int i) @ '']'') p @ slice_pairs_of key (Suc i) rest"
| "slice_pairs_of key i (v # rest) =
     (key @ ''['' @ FormatInt (int i) @ '']'', v) # slice_pairs_of key (Suc i) rest"

text \<open>What one entry of a map, and one element of a slice, contributes.\<close>

definition entry_ok :: "string \<times> pval \<Rightarrow> bool" where
  "entry_ok e =
     (case snd e of VNil \<Rightarrow> False | VParams p \<Rightarrow> no_nil_entry p | VSlice xs \<Rightarrow> no_nil_elem xs
      | _ \<Rightarrow> True)"

definition entry_pairs :: "string \<Rightarrow> string \<times> pval \<Rightarrow> pair list" where
  "entry_pairs parent e =
     (case snd e of
        VParams p \<Rightarrow> pairs_of (child_key parent (fst e)) p
      | VSlice xs \<Rightarrow> slice_pairs_of (child_key parent (fst e)) 0 xs
      | _ \<Rightarrow> [(child_key parent (fst e), snd e)])"

text \<open>
  A Go map has distinct keys; \<open>wf_val\<close> says so for every map inside a value.
\<close>

fun wf_val :: "pval \<Rightarrow> bool"
  and wf_elems :: "pval list \<Rightarrow> bool"
  and wf_entries :: "(string \<times> pval) list \<Rightarrow> bool" where
  "wf_val (VParams m) = (distinct (map fst m) \<and> wf_entries m)"
| "wf_val (VSlice xs) = wf_elems xs"
| "wf_val v = True"
| "wf_elems [] = True"
| "wf_elems (x # xs) = (wf_val x \<and> wf_elems xs)"
| "wf_entries [] = True"
| "wf_entries ((k, v) # m) = (wf_val v \<and> wf_entries m)"

text \<open>
  Two values are the same Go value when they differ only in the order in which their
  maps list their entries: a map's entries may be permuted, at any depth.
\<close>

inductive same :: "pval \<Rightarrow> pval \<Rightarrow> bool"
  and same_elems :: "pval list \<Rightarrow> pval list \<Rightarrow> bool"
  and same_entries :: "(string \<times> pval) list \<Rightarrow> (string \<times> pval) list \<Rightarrow> bool" where
  same_String: "same (VString s) (VString s)"
| same_Int: "same (VInt i) (VInt i)"
| same_Bool: "same (VBool b) (VBool b)"
| same_Nil: "same VNil VNil"
| same_Other: "same (VOther s) (VOther s)"
| same_Slice: "same_elems xs ys \<Longrightarrow> same (VSlice xs) (VSlice ys)"
| same_Params: "same_entries m m' \<Longrightarrow> mset m' = mset m'' \<Longrightarrow> same (VParams m) (VParams m'')"
| same_elems_Nil: "same_elems [] []"
| same_elems_Cons: "same x y \<Longrightarrow> same_elems xs ys \<Longrightarrow> same_elems (x # xs) (y # ys)"
| same_entries_Nil: "same_entries [] []"
| same_entries_Cons: "same v w \<Longrightarrow> same_entries m m' \<Longrightarrow> same_entries ((k, v) # m) ((k, w) # m')"

definition spec_example :: Params where
  "spec_example = [(''a'', VParams [(''b'', VInt 1)]), (''c'', VSlice [VInt 1, VInt 2])]"

definition spec_example_reordered :: Params where
  "spec_example_reordered = [(''c'', VSlice [VInt 1, VInt 2]), (''a'', VParams [(''b'', VInt 1)])]"

section \<open>The tax-rate loader (tax.go)\<close>

text \<open>
  The reader is the text still to be read.  \<open>getr\<close> gives \<open>-1\<close> at the end of the input
  and no error, so \<open>skipline\<close>, which loops until it has read a newline, never returns
  when the input ends inside a comment: \<open>None\<close> stands for that.  \<open>scanline\<close> stops at a
  newline or at the end of the input.
\<close>

fun tax_skipline :: "string \<Rightarrow> string option" where
  "tax_skipline [] = None"
| "tax_skipline (c # cs) = (if c = CHR 0x0A then Some cs else tax_skipline cs)"

fun tax_scanline :: "string \<Rightarrow> string \<times> string" where
  "tax_scanline [] = ([], [])"
| "tax_scanline (c # cs) =
     (if c = CHR 0x0A then ([], cs) else (case tax_scanline cs of (buf, rest) \<Rightarrow> (c # buf, rest)))"

definition is_blank :: "char \<Rightarrow> bool" where
  "is_blank c = (c = CHR '' '' \<or> c = CHR 0x09 \<or> c = CHR 0x0D \<or> c = CHR 0x0A)"

function loadIds :: "string \<Rightarrow> string list option" where
  "loadIds [] = Some []"
| "loadIds (c # cs) =
     (if is_blank c then loadIds cs
      else if c = CHR ''#'' then
        (case tax_skipline cs of None \<Rightarrow> None | Some rest \<Rightarrow> loadIds rest)
      else
        (case tax_scanline cs of
           (buf, rest) \<Rightarrow>
             (case loadIds rest of None \<Rightarrow> None | Some ids \<Rightarrow> Some ((c # buf) # ids))))"
  by pat_completeness auto
termination
proof (relation "measure length")
  show "wf (measure length)" by simp
next
  fix c cs assume "is_blank c"
  show "(cs, c # cs) \<in> measure length" by simp
next
  fix c cs x2
  assume a: "tax_skipline cs = Some x2"
  have "tax_skipline xs = Some rest \<Longrightarrow> length rest < Suc (length xs)" for xs rest
    by (induction xs) (auto split: if_splits)
  with a show "(x2, c # cs) \<in> measure length" by simp
next
  fix c cs x y
  assume a: "(x, y) = tax_scanline cs"
  have "tax_scanline xs = (buf, rest) \<Longrightarrow> length rest \<le> length xs" for xs buf rest
    by (induction xs arbitrary: buf rest) (auto split: if_splits prod.splits)
  from this[of cs x y] a show "(y, c # cs) \<in> measure length" by simp
qed

text \<open>
  Each id is loaded by a task of its own into a \<open>TaxRate\<close> made for it, holding the id
  only.  A task sends one GET and writes to nothing but its own \<open>TaxRate\<close>; the GETs are
  answered independently of each other, so \<open>get\<close> is a function of the URI and the
  tasks may run in any order.  The errors reach the callback in the order in which the
  tasks happen to fail, which is not determined: they are collected as a multiset.
  When all tasks are done the rates are merged in the order of the ids.
\<close>

record Taxes =
  t_ids :: "string set"
  t_rates :: "string \<rightharpoonup> stripe_TaxRate"

definition taxRateEndpoint :: string where
  "taxRateEndpoint = ''/v1/tax_rates''"

definition TaxRate_Endpoint :: "stripe_TaxRate \<Rightarrow> string list \<Rightarrow> string" where
  "TaxRate_Endpoint tr uris =
     (taxRateEndpoint @ (if tr_ID tr \<noteq> [] then ''/'' @ tr_ID tr else [])
        @ (if length uris > 0 then ''/'' else [])) @ Join uris ''/''"

definition TaxRate_Load :: "(string \<Rightarrow> error + response) \<Rightarrow> stripe_TaxRate
    \<Rightarrow> stripe_TaxRate \<times> error option" where
  "TaxRate_Load get tr =
     (case get (TaxRate_Endpoint tr []) of
        Inl err \<Rightarrow> (tr, Some err)
      | Inr resp \<Rightarrow>
          if \<not> respCode2xx (StatusCode resp) then (tr, Some (Client_Error resp))
          else
            (case Body resp of
               JTaxRate x \<Rightarrow> (x, None)
             | _ \<Rightarrow> (tr, Some (OtherError ''json''))))"

definition new_TaxRate :: "string \<Rightarrow> stripe_TaxRate" where
  "new_TaxRate i = \<lparr>tr_ID = i, tr_Jurisdiction = [], tr_DisplayName = []\<rparr>"

definition merge_rate :: "stripe_TaxRate \<Rightarrow> Taxes \<Rightarrow> Taxes" where
  "merge_rate tr t =
     (if tr_ID tr \<notin> t_ids t then
        t\<lparr>t_ids := insert (tr_ID tr) (t_ids t), t_rates := (t_rates t)(tr_Jurisdiction tr \<mapsto> tr)\<rparr>
      else t)"

definition Reload :: "(string \<Rightarrow> error + response) \<Rightarrow> Taxes \<Rightarrow> string
    \<Rightarrow> (error option \<times> error multiset \<times> Taxes) option" where
  "Reload get t r =
     (case loadIds r of
        None \<Rightarrow> None
      | Some ids \<Rightarrow>
          (let loaded = map (\<lambda>i. TaxRate_Load get (new_TaxRate i)) ids;
               errs = mset (List.map_filter snd loaded);
               rates = map fst loaded
           in Some (None, errs, fold merge_rate rates t)))"

definition LoadTaxRates :: "(string \<Rightarrow> error + response) \<Rightarrow> string
    \<Rightarrow> (error option \<times> error multiset \<times> Taxes) option" where
  "LoadTaxRates get r = Reload get \<lparr>t_ids = {}, t_rates = Map.empty\<rparr> r"

definition Taxes_Get :: "Taxes \<Rightarrow> string \<Rightarrow> error + stripe_TaxRate" where
  "Taxes_Get t jurisdiction =
     (case t_rates t jurisdiction of None \<Rightarrow> Inl ErrUnknownJurisdiction | Some tr \<Rightarrow> Inr tr)"

section \<open>The earlier tax-rate loader (scanlines.go and LoadTaxes)\<close>

text \<open>
  \<open>scanlines\<close> passes every line to a callback as soon as it has read it; the callback
  acts on a state \<open>'a\<close>.  Here \<open>skipline\<close> and \<open>scanline\<close> stop at the end of the input.
\<close>

fun skipline :: "string \<Rightarrow> string" where
  "skipline [] = []"
| "skipline (c # cs) = (if c = CHR 0x0A then cs else skipline cs)"

fun scanline :: "string \<Rightarrow> string \<times> string" where
  "scanline [] = ([], [])"
| "scanline (c # cs) =
     (if c = CHR 0x0A then ([], cs) else (case scanline cs of (lit, rest) \<Rightarrow> (c # lit, rest)))"

function scanlines :: "string \<Rightarrow> (string \<Rightarrow> 'a \<Rightarrow> 'a) \<Rightarrow> 'a \<Rightarrow> 'a" where
  "scanlines [] fn a = a"
| "scanlines (c # cs) fn a =
     (if is_blank c then scanlines cs fn a
      else if c = CHR ''#'' then scanlines (skipline cs) fn a
      else (case scanline cs of (lit, rest) \<Rightarrow> scanlines rest fn (fn (c # lit) a)))"
  by pat_completeness auto
termination
proof (relation "measure (\<lambda>(r, fn, a). length r)")
  show "wf (measure (\<lambda>(r, fn, a). length r))" by simp
next
  fix c cs and fn :: "string \<Rightarrow> 'a \<Rightarrow> 'a" and a :: 'a
  show "((cs, fn, a), c # cs, fn, a) \<in> measure (\<lambda>(r, fn, a). length r)" by simp
next
  fix c cs and fn :: "string \<Rightarrow> 'a \<Rightarrow> 'a" and a :: 'a
  have "length (skipline xs) \<le> length xs" for xs
    by (induction xs) auto
  from this[of cs]
  show "((skipline cs, fn, a), c # cs, fn, a) \<in> measure (\<lambda>(r, fn, a). length r)" by simp
next
  fix c cs and fn :: "string \<Rightarrow> 'a \<Rightarrow> 'a" and a :: 'a and x y
  assume b: "(x, y) = scanline cs"
  have "scanline xs = (lit, rest) \<Longrightarrow> length rest \<le> length xs" for xs lit rest
    by (induction xs arbitrary: lit rest) (auto split: if_splits prod.splits)
  from this[of cs x y] b
  show "((y, fn, fn (c # x) a), c # cs, fn, a) \<in> measure (\<lambda>(r, fn, a). length r)" by simp
qed

text \<open>
  \<open>loadTaxRate\<close> fetches one id and merges it at once.  It reads the message of a
  failed request from \<open>s.Error(resp).(*stripe.Error)\<close>; the \<open>Error\<close> method it was
  written against is not among the sources, so the message is the parameter \<open>msg\<close>.
  The state of the callback is the errors handed to \<open>errh\<close> so far, and the table.
\<close>

definition Error_text :: "error \<Rightarrow> string" where
  "Error_text e =
     (case e of
        ErrEventExists \<Rightarrow> ''event exists''
      | ErrUnknownResource \<Rightarrow> ''unknown resource''
      | ErrUnknownJurisdiction \<Rightarrow> ''unknown jurisdiction''
      | ErrPaymentIntent i st \<Rightarrow> st
      | StripeError st m \<Rightarrow> ''stripeutil/stripe.go: stripe api error '' @ st @ '': '' @ m
      | OtherError m \<Rightarrow> m)"

definition loadTaxRate :: "(string \<Rightarrow> error + response) \<Rightarrow> (response \<Rightarrow> string) \<Rightarrow> string
    \<Rightarrow> error list \<times> Taxes \<Rightarrow> error list \<times> Taxes" where
  "loadTaxRate get msg i st =
     (case get (taxRateEndpoint @ ''/'' @ i) of
        Inl err \<Rightarrow>
          (fst st @ [OtherError (''failed to get tax_rate '' @ i @ '': '' @ Error_text err)], snd st)
      | Inr resp \<Rightarrow>
          if \<not> respCode2xx (StatusCode resp) then
            (if StatusCode resp \<ge> 400 \<and> StatusCode resp \<le> 451 then
               (fst st @ [OtherError (''failed to load tax_rate '' @ i @ '': '' @ msg resp)], snd st)
             else
               (fst st @ [OtherError (''unexpected error when loading tax_rate '' @ i @ '': ''
                                        @ msg resp)], snd st))
          else
            (case Body resp of
               JTaxRate tr \<Rightarrow> (fst st, merge_rate tr (snd st))
             | _ \<Rightarrow>
                 (fst st @ [OtherError (''failed to decode tax_rate '' @ i @ '': ''
                                          @ Error_text (OtherError ''json''))], snd st)))"

definition Reload_scanlines :: "(string \<Rightarrow> error + response) \<Rightarrow> (response \<Rightarrow> string) \<Rightarrow> Taxes
    \<Rightarrow> string \<Rightarrow> error option \<times> error list \<times> Taxes" where
  "Reload_scanlines get msg t r =
     (case scanlines r (loadTaxRate get msg) ([], t) of (errs, t') \<Rightarrow> (None, errs, t'))"

definition LoadTaxes :: "(string \<Rightarrow> error + response) \<Rightarrow> (response \<Rightarrow> string) \<Rightarrow> string
    \<Rightarrow> error option \<times> error list \<times> Taxes" where
  "LoadTaxes get msg r = Reload_scanlines get msg \<lparr>t_ids = {}, t_rates = Map.empty\<rparr> r"

text \<open>The lines \<open>scanlines\<close> hands to its callback, and whether the fetch of an id fails.\<close>

definition lines_of :: "string \<Rightarrow> string list" where
  "lines_of r = scanlines r (\<lambda>l acc. acc @ [l]) []"

definition fetch_fails :: "(string \<Rightarrow> error + response) \<Rightarrow> string \<Rightarrow> bool" where
  "fetch_fails get i = (snd (TaxRate_Load get (new_TaxRate i)) \<noteq> None)"

definition fetched :: "(string \<Rightarrow> error + response) \<Rightarrow> string \<Rightarrow> stripe_TaxRate" where
  "fetched get i = fst (TaxRate_Load get (new_TaxRate i))"

text \<open>Sample data: a remote side knowing three tax rates, two of them for one
  jurisdiction, and the input of the test of \<open>scanlines\<close>.\<close>

definition demo_get :: "string \<Rightarrow> error + response" where
  "demo_get uri =
     (if uri = ''/v1/tax_rates/txr_uk'' then
        Inr \<lparr>StatusCode = 200, Status = ''200 OK'',
             Body = JTaxRate \<lparr>tr_ID = ''txr_uk'', tr_Jurisdiction = ''uk'', tr_DisplayName = ''VAT''\<rparr>\<rparr>
      else if uri = ''/v1/tax_rates/txr_uk2'' then
        Inr \<lparr>StatusCode = 200, Status = ''200 OK'',
             Body = JTaxRate \<lparr>tr_ID = ''txr_uk2'', tr_Jurisdiction = ''uk'', tr_DisplayName = ''VAT''\<rparr>\<rparr>
      else if uri = ''/v1/tax_rates/txr_de'' then
        Inr \<lparr>StatusCode = 200, Status = ''200 OK'',
             Body = JTaxRate \<lparr>tr_ID = ''txr_de'', tr_Jurisdiction = ''de'', tr_DisplayName = ''MwSt''\<rparr>\<rparr>
      else
        Inr \<lparr>StatusCode = 404, Status = ''404 Not Found'',
             Body = JError ''no such tax rate'' ''invalid_request_error''\<rparr>)"

definition demo_msg :: "response \<Rightarrow> string" where
  "demo_msg resp = (case Body resp of JError m t \<Rightarrow> m | _ \<Rightarrow> [])"

definition newline :: string where
  "newline = [CHR 0x0A]"

definition test_input :: string where
  "test_input = ''line_1'' @ newline @ ''line_2'' @ newline @ newline @ ''# commet'' @ newline
     @ ''line_3'' @ newline @ newline @ newline @ newline @ newline @ ''line_4''"

text \<open>The conditions under which entries can be counted: the ids fetched are new to the
  table and pairwise distinct, and the grouping keys are pairwise distinct.\<close>

definition succeeded :: "(string \<Rightarrow> error + response) \<Rightarrow> string list \<Rightarrow> string list" where
  "succeeded get ids = filter (\<lambda>i. \<not> fetch_fails get i) ids"

definition new_ids :: "(string \<Rightarrow> error + response) \<Rightarrow> string list \<Rightarrow> Taxes \<Rightarrow> bool" where
  "new_ids get ids t =
     (distinct (map (\<lambda>i. tr_ID (fetched get i)) ids)
      \<and> list_all (\<lambda>i. tr_ID (fetched get i) \<notin> t_ids t) ids)"

definition distinct_keys :: "(string \<Rightarrow> error + response) \<Rightarrow> string list \<Rightarrow> bool" where
  "distinct_keys get ids =
     (distinct (map (\<lambda>i. tr_Jurisdiction (fetched get i)) ids)
      \<and> list_all (\<lambda>i. tr_Jurisdiction (fetched get i) \<noteq> []) ids)"

definition rate_uk :: stripe_TaxRate where
  "rate_uk = \<lparr>tr_ID = ''txr_uk'', tr_Jurisdiction = ''uk'', tr_DisplayName = ''VAT''\<rparr>"

definition rate_uk2 :: stripe_TaxRate where
  "rate_uk2 = \<lparr>tr_ID = ''txr_uk2'', tr_Jurisdiction = ''uk'', tr_DisplayName = ''VAT''\<rparr>"

definition rate_de :: stripe_TaxRate where
  "rate_de = \<lparr>tr_ID = ''txr_de'', tr_Jurisdiction = ''de'', tr_DisplayName = ''MwSt''\<rparr>"

definition no_taxes :: Taxes where
  "no_taxes = \<lparr>t_ids = {}, t_rates = Map.empty\<rparr>"


section \<open>What each operation leaves untouched\<close>

lemma do_frame:
  assumes "do s w req = (res, w')"
  shows "requests w' = requests w @ [req] \<and> store w' = store w \<and> puts w' = puts w"
  using assms by (auto simp: do_def split: prod.splits)

lemma Post_frame:
  assumes "Post s w uri params = Returns (res, w')"
  shows "\<exists>b. requests w' = requests w @ [\<lparr>req_method = ''POST'', req_uri = uri, req_body = Some b\<rparr>]
           \<and> store w' = store w \<and> puts w' = puts w"
  using assms by (auto simp: Post_def split: outcome.splits dest: do_frame)

lemma postPaymentMethod_frame:
  assumes "postPaymentMethod s w uri params = Returns (res, w')"
  shows "\<exists>b. requests w' = requests w @ [\<lparr>req_method = ''POST'', req_uri = uri, req_body = Some b\<rparr>]
           \<and> store w' = store w \<and> puts w' = puts w"
proof (cases "Post s w uri params")
  case Panics
  with assms show ?thesis by (simp add: postPaymentMethod_def)
next
  case (Returns x)
  obtain r w1 where x: "x = (r, w1)" by (cases x)
  from assms Returns x have "w' = w1"
    by (auto simp: postPaymentMethod_def split: sum.splits if_splits body.splits)
  with Post_frame[of s w uri params r w1] Returns x show ?thesis by simp
qed

lemma postCustomer_frame:
  assumes "postCustomer s w uri params = Returns (res, w')"
  shows "\<exists>b. requests w' = requests w @ [\<lparr>req_method = ''POST'', req_uri = uri, req_body = Some b\<rparr>]
           \<and> store w' = store w \<and> puts w' = puts w"
proof (cases "Post s w uri params")
  case Panics
  with assms show ?thesis by (simp add: postCustomer_def)
next
  case (Returns x)
  obtain r w1 where x: "x = (r, w1)" by (cases x)
  from assms Returns x have "w' = w1"
    by (auto simp: postCustomer_def split: sum.splits if_splits body.splits)
  with Post_frame[of s w uri params r w1] Returns x show ?thesis by simp
qed

lemma postSubscription_frame:
  assumes "postSubscription s w uri params = Returns (res, w')"
  shows "\<exists>b. requests w' = requests w @ [\<lparr>req_method = ''POST'', req_uri = uri, req_body = Some b\<rparr>]
           \<and> store w' = store w \<and> puts w' = puts w"
proof (cases "Post s w uri params")
  case Panics
  with assms show ?thesis by (simp add: postSubscription_def)
next
  case (Returns x)
  obtain r w1 where x: "x = (r, w1)" by (cases x)
  from assms Returns x have "w' = w1"
    by (auto simp: postSubscription_def split: sum.splits if_splits body.splits)
  with Post_frame[of s w uri params r w1] Returns x show ?thesis by simp
qed

lemma Attach_frame:
  assumes "Attach s w p c = Returns (err, w')"
  shows "\<exists>b. requests w' = requests w @
             [\<lparr>req_method = ''POST'', req_uri = PaymentMethod_Endpoint p [''attach''], req_body = Some b\<rparr>]
           \<and> store w' = store w \<and> puts w' = puts w"
  using assms
  by (auto simp: Attach_def split: outcome.splits prod.splits dest!: postPaymentMethod_frame)

lemma Customer_Update_frame:
  assumes "Customer_Update s w c params = Returns (res, w')"
  shows "\<exists>b. requests w' = requests w @
             [\<lparr>req_method = ''POST'', req_uri = Customer_Endpoint c [], req_body = Some b\<rparr>]
           \<and> store w' = store w \<and> puts w' = puts w"
  using assms
  by (auto simp: Customer_Update_def split: outcome.splits prod.splits option.splits
           dest!: postCustomer_frame)

lemma CreateSubscription_frame:
  assumes "CreateSubscription s w params = Returns (res, w')"
  shows "store w' = store w \<and> puts w' = puts w"
  using assms by (auto simp: CreateSubscription_def dest!: postSubscription_frame)

lemma Put_frame:
  assumes "Put s w r = (err, w')"
  shows "requests w' = requests w \<and> puts w' = puts w @ [r] \<and> remote w' = remote w
           \<and> store w' = snd (Store_Put s (store w) r) \<and> err = fst (Store_Put s (store w) r)"
  using assms by (auto simp: Put_def split: prod.splits)

lemma attach_uri_not_creation:
  "\<not> is_subscription_creation \<lparr>req_method = m, req_uri = PaymentMethod_Endpoint p us, req_body = b\<rparr>"
  by (simp add: is_subscription_creation_def PaymentMethod_Endpoint_def paymentMethodEndpoint_def
        subscriptionEndpoint_def)

lemma customer_uri_not_creation:
  "\<not> is_subscription_creation \<lparr>req_method = m, req_uri = Customer_Endpoint c us, req_body = b\<rparr>"
  by (simp add: is_subscription_creation_def Customer_Endpoint_def customerEndpoint_def
        subscriptionEndpoint_def)


section \<open>The subscription orchestrator\<close>

lemmas demo_defs = demo_client_def demo_world_def store_with_sub_def newTestStore_def
  demo_customer_def demo_stripe_customer_def demo_pm_def demo_sub_def demo_stripe_sub_def
  demo_invoice_def New_TestStore_def TestStore_Subscription_def demo_attach_req_def
  demo_update_req_def demo_customer_updated_def

lemmas call_defs = Attach_def postPaymentMethod_def Post_def do_def Encode_def encode_def
  child_key_def PaymentMethod_Endpoint_def paymentMethodEndpoint_def respCode2xx_def
  Customer_Update_def postCustomer_def Customer_Endpoint_def customerEndpoint_def
  default_pm_params_def Put_def as_default_of_def CreateSubscription_def postSubscription_def
  subscriptionEndpoint_def creation_params_def zero_Customer_def zero_PaymentMethod_def
  zero_Subscription_def shouldEscape_def

lemma Subscribe_existing_valid:
  assumes "Store_Subscription s (store w) c = (Some sb, True, None)"
      and "Valid now (Some sb)"
      and "Attach s w p c = Returns (None, w1)"
      and "Customer_Update s w1 c (default_pm_params p) = Returns ((c1, None), w2)"
      and "Put s w2 (RPaymentMethod (as_default_of p c1)) = (None, w3)"
  shows "Subscribe s now w c p params = Returns ((Some sb, None), c1, as_default_of p c1, w3)
       \<and> filter is_subscription_creation (requests w3) = filter is_subscription_creation (requests w)"
proof -
  have res: "Subscribe s now w c p params = Returns ((Some sb, None), c1, as_default_of p c1, w3)"
    using assms by (simp add: Subscribe_def default_pm_params_def as_default_of_def)
  obtain b1 where r1: "requests w1 = requests w @
      [\<lparr>req_method = ''POST'', req_uri = PaymentMethod_Endpoint p [''attach''], req_body = Some b1\<rparr>]"
    using Attach_frame[OF assms(3)] by blast
  obtain b2 where r2: "requests w2 = requests w1 @
      [\<lparr>req_method = ''POST'', req_uri = Customer_Endpoint c [], req_body = Some b2\<rparr>]"
    using Customer_Update_frame[OF assms(4)] by blast
  have r3: "requests w3 = requests w2" using Put_frame[OF assms(5)] by simp
  show ?thesis using res r1 r2 r3
    by (simp add: attach_uri_not_creation customer_uri_not_creation)
qed

text \<open>
  C1.  When the store already holds a subscription for the customer that is \<open>Valid\<close>, and
  the attach request, the customer update and the store \<open>Put\<close> of the payment method
  succeed, \<open>Subscribe\<close> returns that subscription and sends no request that creates a
  subscription.  Two such calls in a row both return the same subscription, and neither
  adds a creation request.
\<close>

theorem Subscribe_idempotent:
  assumes "Store_Subscription s (store w) c = (Some sb, True, None)"
      and "Valid now (Some sb)"
      and "Attach s w p c = Returns (None, w1)"
      and "Customer_Update s w1 c (default_pm_params p) = Returns ((c1, None), w2)"
      and "Put s w2 (RPaymentMethod (as_default_of p c1)) = (None, w3)"
      and "Store_Subscription s (store w3) c1 = (Some sb, True, None)"
      and "Valid now' (Some sb)"
      and "Attach s w3 (as_default_of p c1) c1 = Returns (None, w4)"
      and "Customer_Update s w4 c1 (default_pm_params (as_default_of p c1)) = Returns ((c2, None), w5)"
      and "Put s w5 (RPaymentMethod (as_default_of (as_default_of p c1) c2)) = (None, w6)"
  shows "Subscribe s now w c p params = Returns ((Some sb, None), c1, as_default_of p c1, w3)
       \<and> Subscribe s now' w3 c1 (as_default_of p c1) params' =
           Returns ((Some sb, None), c2, as_default_of (as_default_of p c1) c2, w6)
       \<and> filter is_subscription_creation (requests w3) = filter is_subscription_creation (requests w)
       \<and> filter is_subscription_creation (requests w6) = filter is_subscription_creation (requests w)"
  using Subscribe_existing_valid[OF assms(1-5), of params]
        Subscribe_existing_valid[OF assms(6-10), of params']
  by simp

theorem Subscribe_idempotent_witness:
  "\<exists>w3 w6.
     Subscribe (New_TestStore (demo_client ''succeeded'')) 5 (demo_world (store_with_sub demo_sub))
         demo_customer demo_pm []
       = Returns ((Some demo_sub, None), demo_customer_updated,
                  as_default_of demo_pm demo_customer_updated, w3)
   \<and> Subscribe (New_TestStore (demo_client ''succeeded'')) 6 w3 demo_customer_updated
         (as_default_of demo_pm demo_customer_updated) []
       = Returns ((Some demo_sub, None), demo_customer_updated,
                  as_default_of (as_default_of demo_pm demo_customer_updated) demo_customer_updated, w6)
   \<and> requests w6 = [demo_attach_req, demo_update_req, demo_attach_req, demo_update_req]
   \<and> filter is_subscription_creation (requests w6) = []"
proof -
  let ?S = "New_TestStore (demo_client ''succeeded'')"
  let ?W = "demo_world (store_with_sub demo_sub)"
  let ?c1 = demo_customer_updated
  let ?p1 = "as_default_of demo_pm ?c1"
  define W1 where "W1 = ?W\<lparr>requests := [demo_attach_req]\<rparr>"
  define W2 where "W2 = ?W\<lparr>requests := [demo_attach_req, demo_update_req]\<rparr>"
  define W3 where "W3 = W2\<lparr>store := snd (TestStore_Put (store W2) (RPaymentMethod ?p1)),
                             puts := [RPaymentMethod ?p1]\<rparr>"
  define W4 where "W4 = W3\<lparr>requests := [demo_attach_req, demo_update_req, demo_attach_req]\<rparr>"
  define W5 where "W5 = W3\<lparr>requests :=
                       [demo_attach_req, demo_update_req, demo_attach_req, demo_update_req]\<rparr>"
  define W6 where "W6 = W5\<lparr>store := snd (TestStore_Put (store W5) (RPaymentMethod ?p1)),
                             puts := [RPaymentMethod ?p1, RPaymentMethod ?p1]\<rparr>"
  have h1: "Store_Subscription ?S (store ?W) demo_customer = (Some demo_sub, True, None)"
    by (simp add: demo_defs)
  have h2: "Valid 5 (Some demo_sub)"
    by (simp add: Valid_def validSubscriptionStatuses_def demo_defs)
  have h3: "Attach ?S ?W demo_pm demo_customer = Returns (None, W1)"
    by (simp add: W1_def demo_defs call_defs)
  have h4: "Customer_Update ?S W1 demo_customer (default_pm_params demo_pm) = Returns ((?c1, None), W2)"
    by (simp add: W1_def W2_def demo_defs call_defs)
  have h5: "Put ?S W2 (RPaymentMethod ?p1) = (None, W3)"
    by (simp add: W2_def W3_def demo_defs call_defs)
  have h6: "Store_Subscription ?S (store W3) ?c1 = (Some demo_sub, True, None)"
    by (simp add: W2_def W3_def demo_defs call_defs)
  have h7: "Valid 6 (Some demo_sub)"
    by (simp add: Valid_def validSubscriptionStatuses_def demo_defs)
  have h8: "Attach ?S W3 ?p1 ?c1 = Returns (None, W4)"
    by (simp add: W2_def W3_def W4_def demo_defs call_defs)
  have h9: "Customer_Update ?S W4 ?c1 (default_pm_params ?p1) = Returns ((?c1, None), W5)"
    by (simp add: W2_def W3_def W4_def W5_def demo_defs call_defs)
  have h10: "Put ?S W5 (RPaymentMethod (as_default_of ?p1 ?c1)) = (None, W6)"
    by (simp add: W2_def W3_def W4_def W5_def W6_def demo_defs call_defs)
  have rq: "requests W6 = [demo_attach_req, demo_update_req, demo_attach_req, demo_update_req]"
    by (simp add: W6_def W5_def)
  have emp: "filter is_subscription_creation (requests ?W) = []"
    by (simp add: demo_world_def)
  from Subscribe_idempotent[OF h1 h2 h3 h4 h5 h6 h7 h8 h9 h10, of "[]" "[]"] rq emp
  show ?thesis by auto
qed



text \<open>In the in-memory store the \<open>Put\<close> of a payment method leaves every subscription
  lookup as it was, so the second call finds the subscription the first one found.\<close>

lemma TestStore_Put_keeps_subscription:
  "TestStore_Subscription (snd (TestStore_Put ts (RPaymentMethod v))) c = TestStore_Subscription ts c"
  by (simp add: TestStore_Subscription_def)

text \<open>
  C2.  After the remote side has created the subscription: when the payment intent of its
  latest invoice is "processing" or "succeeded", \<open>Subscribe\<close> puts the subscription and
  then its latest invoice into the store and, these two writes succeeding, returns the
  subscription without error.  For every other status it returns \<open>ErrPaymentIntent\<close> with
  the id of the latest invoice and the status seen, and the store is as the \<open>Put\<close> of the
  payment method left it: nothing was written for the subscription or the invoice.
\<close>

theorem Subscribe_payment_outcome:
  assumes look: "Store_Subscription s (store w) c = (sub0, ok, None)"
      and new: "\<not> (ok \<and> Valid now sub0)"
      and att: "Attach s w p c = Returns (None, w1)"
      and upd: "Customer_Update s w1 c (default_pm_params p) = Returns ((c1, None), w2)"
      and putpm: "Put s w2 (RPaymentMethod (as_default_of p c1)) = (None, w3)"
      and crt: "CreateSubscription s w3 (creation_params c1 params) = Returns ((sub1, None), w4)"
      and li: "sub_LatestInvoice (emb_sub sub1) = Some li"
      and pi: "inv_PaymentIntent li = Some pi"
  shows "(pi_Status pi = ''processing'' \<or> pi_Status pi = ''succeeded'' \<longrightarrow>
            (\<forall>w5 w6. Put s w4 (RSubscription sub1) = (None, w5) \<longrightarrow>
                     Put s w5 (RInvoice \<lparr>emb_inv = li, Updated = zero_time\<rparr>) = (None, w6) \<longrightarrow>
               Subscribe s now w c p params =
                 Returns ((Some sub1, None), c1, as_default_of p c1, w6)
             \<and> puts w6 = puts w3 @ [RSubscription sub1, RInvoice \<lparr>emb_inv = li, Updated = zero_time\<rparr>]
             \<and> store w6 = snd (Store_Put s (snd (Store_Put s (store w3) (RSubscription sub1)))
                                  (RInvoice \<lparr>emb_inv = li, Updated = zero_time\<rparr>))))
       \<and> (pi_Status pi \<noteq> ''processing'' \<and> pi_Status pi \<noteq> ''succeeded'' \<longrightarrow>
            Subscribe s now w c p params =
              Returns ((Some sub1, Some (ErrPaymentIntent (inv_ID li) (pi_Status pi))),
                       c1, as_default_of p c1, w4)
          \<and> store w4 = store w3 \<and> puts w4 = puts w3
          \<and> puts w4 = puts w @ [RPaymentMethod (as_default_of p c1)])"
proof -
  have fr: "store w4 = store w3 \<and> puts w4 = puts w3"
    using CreateSubscription_frame[OF crt] by simp
  have p3: "puts w3 = puts w @ [RPaymentMethod (as_default_of p c1)]"
    using Attach_frame[OF att] Customer_Update_frame[OF upd] Put_frame[OF putpm] by auto
  have ok: "pi_Status pi = ''processing'' \<or> pi_Status pi = ''succeeded'' \<Longrightarrow>
            Put s w4 (RSubscription sub1) = (None, w5) \<Longrightarrow>
            Put s w5 (RInvoice \<lparr>emb_inv = li, Updated = zero_time\<rparr>) = (None, w6) \<Longrightarrow>
            Subscribe s now w c p params = Returns ((Some sub1, None), c1, as_default_of p c1, w6)"
    for w5 w6
    using assms
    by (auto simp: Subscribe_def default_pm_params_def as_default_of_def creation_params_def
          paymentOkStatuses_def)
  have okp: "Put s w4 (RSubscription sub1) = (None, w5) \<Longrightarrow>
            Put s w5 (RInvoice \<lparr>emb_inv = li, Updated = zero_time\<rparr>) = (None, w6) \<Longrightarrow>
            puts w6 = puts w3 @ [RSubscription sub1, RInvoice \<lparr>emb_inv = li, Updated = zero_time\<rparr>]
          \<and> store w6 = snd (Store_Put s (snd (Store_Put s (store w3) (RSubscription sub1)))
                                  (RInvoice \<lparr>emb_inv = li, Updated = zero_time\<rparr>))"
    for w5 w6
    using fr by (auto dest!: Put_frame)
  have bad: "pi_Status pi \<noteq> ''processing'' \<and> pi_Status pi \<noteq> ''succeeded'' \<Longrightarrow>
            Subscribe s now w c p params =
              Returns ((Some sub1, Some (ErrPaymentIntent (inv_ID li) (pi_Status pi))),
                       c1, as_default_of p c1, w4)"
    using assms
    by (auto simp: Subscribe_def default_pm_params_def as_default_of_def creation_params_def
          paymentOkStatuses_def)
  show ?thesis
  proof (intro conjI impI allI)
    fix w5 w6
    assume a: "pi_Status pi = ''processing'' \<or> pi_Status pi = ''succeeded''"
       and b: "Put s w4 (RSubscription sub1) = (None, w5)"
       and c: "Put s w5 (RInvoice \<lparr>emb_inv = li, Updated = zero_time\<rparr>) = (None, w6)"
    show "Subscribe s now w c p params = Returns ((Some sub1, None), c1, as_default_of p c1, w6)"
      by (rule ok[OF a b c])
    show "puts w6 = puts w3 @ [RSubscription sub1, RInvoice \<lparr>emb_inv = li, Updated = zero_time\<rparr>]"
      using okp[OF b c] by simp
    show "store w6 = snd (Store_Put s (snd (Store_Put s (store w3) (RSubscription sub1)))
                                  (RInvoice \<lparr>emb_inv = li, Updated = zero_time\<rparr>))"
      using okp[OF b c] by simp
  next
    assume "pi_Status pi \<noteq> ''processing'' \<and> pi_Status pi \<noteq> ''succeeded''"
    then show "Subscribe s now w c p params =
              Returns ((Some sub1, Some (ErrPaymentIntent (inv_ID li) (pi_Status pi))),
                       c1, as_default_of p c1, w4)"
      by (rule bad)
  qed (simp_all add: fr p3)
qed



lemmas demo_defs2 = demo_defs demo_create_req_def demo_created_def

theorem Subscribe_payment_outcome_witness:
  "(\<exists>w6. Subscribe (New_TestStore (demo_client ''succeeded'')) 5 (demo_world newTestStore)
             demo_customer demo_pm []
           = Returns ((Some (demo_created ''succeeded''), None), demo_customer_updated,
                      as_default_of demo_pm demo_customer_updated, w6)
         \<and> puts w6 = [RPaymentMethod (as_default_of demo_pm demo_customer_updated),
                       RSubscription (demo_created ''succeeded''),
                       RInvoice \<lparr>emb_inv = demo_invoice ''succeeded'', Updated = zero_time\<rparr>]
         \<and> ts_subscriptions (store w6) ''cus_1'' = Some (demo_created ''succeeded''))
 \<and> (\<exists>w4. Subscribe (New_TestStore (demo_client ''requires_action'')) 5 (demo_world newTestStore)
             demo_customer demo_pm []
           = Returns ((Some (demo_created ''requires_action''),
                       Some (ErrPaymentIntent ''in_1'' ''requires_action'')),
                      demo_customer_updated, as_default_of demo_pm demo_customer_updated, w4)
         \<and> puts w4 = [RPaymentMethod (as_default_of demo_pm demo_customer_updated)]
         \<and> ts_subscriptions (store w4) ''cus_1'' = None
         \<and> ts_invoices (store w4) ''cus_1'' = [])"
proof -
  let ?W = "demo_world newTestStore"
  let ?c1 = demo_customer_updated
  let ?p1 = "as_default_of demo_pm ?c1"
  define W1 where "W1 = ?W\<lparr>requests := [demo_attach_req]\<rparr>"
  define W2 where "W2 = ?W\<lparr>requests := [demo_attach_req, demo_update_req]\<rparr>"
  define W3 where "W3 = W2\<lparr>store := snd (TestStore_Put (store W2) (RPaymentMethod ?p1)),
                             puts := [RPaymentMethod ?p1]\<rparr>"
  define W4 where "W4 = W3\<lparr>requests := [demo_attach_req, demo_update_req, demo_create_req]\<rparr>"
  have g: "Store_Subscription (New_TestStore (demo_client st)) (store ?W) demo_customer
             = (None, False, None)
         \<and> \<not> (False \<and> Valid 5 None)
         \<and> Attach (New_TestStore (demo_client st)) ?W demo_pm demo_customer = Returns (None, W1)
         \<and> Customer_Update (New_TestStore (demo_client st)) W1 demo_customer (default_pm_params demo_pm)
             = Returns ((?c1, None), W2)
         \<and> Put (New_TestStore (demo_client st)) W2 (RPaymentMethod ?p1) = (None, W3)
         \<and> CreateSubscription (New_TestStore (demo_client st)) W3 (creation_params ?c1 [])
             = Returns ((demo_created st, None), W4)
         \<and> sub_LatestInvoice (emb_sub (demo_created st)) = Some (demo_invoice st)
         \<and> inv_PaymentIntent (demo_invoice st) = Some \<lparr>pi_ID = ''pi_1'', pi_Status = st\<rparr>" for st
    by (simp add: W1_def W2_def W3_def W4_def demo_defs2 call_defs FormatInt_def digit_char_def)
  define W5 where "W5 = W4\<lparr>store := snd (TestStore_Put (store W4) (RSubscription (demo_created ''succeeded''))),
                             puts := puts W4 @ [RSubscription (demo_created ''succeeded'')]\<rparr>"
  define W6 where "W6 = W5\<lparr>store := snd (TestStore_Put (store W5)
                                (RInvoice \<lparr>emb_inv = demo_invoice ''succeeded'', Updated = zero_time\<rparr>)),
                             puts := puts W5 @ [RInvoice \<lparr>emb_inv = demo_invoice ''succeeded'', Updated = zero_time\<rparr>]\<rparr>"
  have p5: "Put (New_TestStore (demo_client ''succeeded'')) W4 (RSubscription (demo_created ''succeeded''))
              = (None, W5)"
    by (simp add: W5_def Put_def New_TestStore_def)
  have p6: "Put (New_TestStore (demo_client ''succeeded'')) W5
              (RInvoice \<lparr>emb_inv = demo_invoice ''succeeded'', Updated = zero_time\<rparr>) = (None, W6)"
    by (simp add: W6_def Put_def New_TestStore_def)
  note g1 = g[of "''succeeded''"]
  note g2 = g[of "''requires_action''"]
  have A: "Subscribe (New_TestStore (demo_client ''succeeded'')) 5 ?W demo_customer demo_pm []
           = Returns ((Some (demo_created ''succeeded''), None), ?c1, ?p1, W6)"
    using Subscribe_payment_outcome[of "New_TestStore (demo_client ''succeeded'')" ?W demo_customer
        None False 5 demo_pm W1 ?c1 W2 W3 "[]" "demo_created ''succeeded''" W4
        "demo_invoice ''succeeded''" "\<lparr>pi_ID = ''pi_1'', pi_Status = ''succeeded''\<rparr>"] g1 p5 p6
    by simp
  have B: "Subscribe (New_TestStore (demo_client ''requires_action'')) 5 ?W demo_customer demo_pm []
           = Returns ((Some (demo_created ''requires_action''),
                       Some (ErrPaymentIntent ''in_1'' ''requires_action'')), ?c1, ?p1, W4)"
    using Subscribe_payment_outcome[of "New_TestStore (demo_client ''requires_action'')" ?W demo_customer
        None False 5 demo_pm W1 ?c1 W2 W3 "[]" "demo_created ''requires_action''" W4
        "demo_invoice ''requires_action''" "\<lparr>pi_ID = ''pi_1'', pi_Status = ''requires_action''\<rparr>"] g2
    by (simp add: demo_invoice_def)
  have C: "puts W6 = [RPaymentMethod ?p1, RSubscription (demo_created ''succeeded''),
                       RInvoice \<lparr>emb_inv = demo_invoice ''succeeded'', Updated = zero_time\<rparr>]
         \<and> ts_subscriptions (store W6) ''cus_1'' = Some (demo_created ''succeeded'')"
    by (simp add: W6_def W5_def W4_def W3_def W2_def demo_defs2 as_default_of_def)
  have D: "puts W4 = [RPaymentMethod ?p1] \<and> ts_subscriptions (store W4) ''cus_1'' = None
         \<and> ts_invoices (store W4) ''cus_1'' = []"
    by (simp add: W4_def W3_def W2_def demo_defs2 as_default_of_def)
  show ?thesis using A B C D by blast
qed


text \<open>
  C7.  \<open>Unsubscribe\<close> returns with the world as it found it (no request sent, nothing
  put into the store, the store unchanged) when the store has no subscription for the
  customer, when the subscription is not \<open>Valid\<close>, and when the subscription already has
  \<open>EndsAt\<close> set.  In the last case it returns the stored subscription itself while the
  grace period lasts, and nothing once it is over.
\<close>

theorem Unsubscribe_noop:
  assumes "Store_Subscription s (store w) c = (sub0, ok, None)"
  shows "(\<not> ok \<longrightarrow> Unsubscribe s now w c = Returns ((None, None), w))
       \<and> (\<not> Valid now sub0 \<longrightarrow> Unsubscribe s now w c = Returns ((None, None), w))
       \<and> (\<forall>sb t. ok \<and> sub0 = Some sb \<and> EndsAt sb = Some t \<longrightarrow>
             Unsubscribe s now w c =
               Returns ((if now < t then (Some sb, None) else (None, None)), w))"
  using assms by (auto simp: Unsubscribe_def Valid_def)

theorem Unsubscribe_noop_witness:
  "Unsubscribe (New_TestStore (demo_client [])) 5 (demo_world newTestStore) demo_customer
     = Returns ((None, None), demo_world newTestStore)
 \<and> Unsubscribe (New_TestStore (demo_client [])) 5
       (demo_world (store_with_sub (demo_sub\<lparr>emb_sub := (emb_sub demo_sub)\<lparr>sub_Status := ''canceled''\<rparr>\<rparr>)))
       demo_customer
     = Returns ((None, None),
         demo_world (store_with_sub (demo_sub\<lparr>emb_sub := (emb_sub demo_sub)\<lparr>sub_Status := ''canceled''\<rparr>\<rparr>)))
 \<and> Unsubscribe (New_TestStore (demo_client [])) 5
       (demo_world (store_with_sub (demo_sub\<lparr>EndsAt := Some 100\<rparr>))) demo_customer
     = Returns ((Some (demo_sub\<lparr>EndsAt := Some 100\<rparr>), None),
         demo_world (store_with_sub (demo_sub\<lparr>EndsAt := Some 100\<rparr>)))"
proof -
  let ?S = "New_TestStore (demo_client [])"
  let ?bad = "demo_sub\<lparr>emb_sub := (emb_sub demo_sub)\<lparr>sub_Status := ''canceled''\<rparr>\<rparr>"
  let ?grace = "demo_sub\<lparr>EndsAt := Some 100\<rparr>"
  have a: "Store_Subscription ?S (store (demo_world newTestStore)) demo_customer = (None, False, None)"
    by (simp add: demo_defs)
  have b: "Store_Subscription ?S (store (demo_world (store_with_sub ?bad))) demo_customer
             = (Some ?bad, True, None)"
    by (simp add: demo_defs)
  have b': "\<not> Valid 5 (Some ?bad)"
    by (simp add: Valid_def validSubscriptionStatuses_def demo_defs)
  have c: "Store_Subscription ?S (store (demo_world (store_with_sub ?grace))) demo_customer
             = (Some ?grace, True, None)"
    by (simp add: demo_defs)
  show ?thesis
    using Unsubscribe_noop[OF a, of 5] Unsubscribe_noop[OF b, of 5] b'
          Unsubscribe_noop[OF c, of 5]
    by simp
qed


section \<open>Attach and Update leave the receiver alone\<close>

lemma deref_extend:
  assumes "deref h ptr = Some p"
      and "h_pm h' = h_pm h @ cs"
      and "h_spm h' = h_spm h @ vs"
  shows "deref h' ptr = Some p"
  using assms
  by (auto simp: deref_def nth_append split: option.splits if_splits)

lemma ptr_postPaymentMethod_extends:
  assumes "ptr_postPaymentMethod s w h uri params = Returns (r, w', h')"
  shows "\<exists>c v. h_pm h' = h_pm h @ [c] \<and> h_spm h' = h_spm h @ [v]"
  using assms
  by (auto simp: ptr_postPaymentMethod_def new_spm_def new_pm_def
        split: outcome.splits sum.splits if_splits body.splits prod.splits)

lemma ptr_postPaymentMethod_keeps:
  assumes "ptr_postPaymentMethod s w h uri params = Returns (r, w', h')"
      and "deref h ptr = Some p"
  shows "deref h' ptr = Some p"
  using ptr_postPaymentMethod_extends[OF assms(1)] deref_extend[OF assms(2)]
  by blast

text \<open>
  C10.  \<open>PaymentMethod.Attach\<close> and \<open>PaymentMethod.Update\<close> do not write to their
  receiver: whenever the call returns, with or without an error, the payment method
  behind the caller's pointer has every field (of the structure and of the embedded one)
  as before the call.  The decoded response lives in a new object that only the method's
  own variable points to.
\<close>

theorem receiver_unchanged:
  assumes "deref h pm = Some p"
  shows "(\<forall>err w' h'. ptr_Attach s w h pm c = Returns (err, w', h') \<longrightarrow> deref h' pm = Some p)
       \<and> (\<forall>err w' h'. ptr_Update s w h pm params = Returns (err, w', h') \<longrightarrow> deref h' pm = Some p)"
  using assms
  by (auto simp: ptr_Attach_def ptr_Update_def split: outcome.splits prod.splits
        dest: ptr_postPaymentMethod_keeps)

text \<open>The pointer-level \<open>Attach\<close> and the value-level one used by \<open>Subscribe\<close> agree
  on the error and on the world.\<close>

lemma ptr_Attach_refines:
  assumes "deref h pm = Some p"
  shows "(\<exists>h'. ptr_Attach s w h pm c = Returns (err, w', h')) \<longleftrightarrow> Attach s w p c = Returns (err, w')"
  using assms
  by (auto simp: ptr_Attach_def Attach_def ptr_postPaymentMethod_def postPaymentMethod_def
        new_spm_def new_pm_def
        split: outcome.splits sum.splits if_splits body.splits prod.splits)

theorem receiver_unchanged_witness:
  "deref demo_heap (Some 0) = Some demo_pm
 \<and> (\<exists>w' h'. ptr_Attach (New_TestStore (demo_client [])) (demo_world newTestStore) demo_heap (Some 0)
                demo_customer = Returns (None, w', h')
            \<and> deref h' (Some 0) = Some demo_pm
            \<and> deref h' (Some 1) = Some (demo_pm\<lparr>emb_pm := (emb_pm demo_pm)\<lparr>pm_Customer := demo_stripe_customer\<rparr>\<rparr>))
 \<and> (\<exists>w' h'. ptr_Update (New_TestStore (demo_client [])) (demo_world newTestStore) demo_heap (Some 0)
                [] = Returns (Some (StripeError ''404 Not Found'' ''no such resource''), w', h')
            \<and> deref h' (Some 0) = Some demo_pm)"
proof -
  have d: "deref demo_heap (Some 0) = Some demo_pm"
    by (simp add: deref_def demo_heap_def demo_pm_def)
  have a: "\<exists>w' h'. ptr_Attach (New_TestStore (demo_client [])) (demo_world newTestStore) demo_heap (Some 0)
                demo_customer = Returns (None, w', h')
            \<and> deref h' (Some 1) = Some (demo_pm\<lparr>emb_pm := (emb_pm demo_pm)\<lparr>pm_Customer := demo_stripe_customer\<rparr>\<rparr>)"
    by (simp add: ptr_Attach_def d ptr_postPaymentMethod_def new_spm_def new_pm_def demo_heap_def
          deref_def demo_defs call_defs)
  have u: "\<exists>w' h'. ptr_Update (New_TestStore (demo_client [])) (demo_world newTestStore) demo_heap (Some 0)
                [] = Returns (Some (StripeError ''404 Not Found'' ''no such resource''), w', h')"
    by (simp add: ptr_Update_def d ptr_postPaymentMethod_def new_spm_def new_pm_def demo_heap_def
          deref_def demo_defs call_defs Client_Error_def)
  show ?thesis
    using receiver_unchanged[OF d, of "New_TestStore (demo_client [])" "demo_world newTestStore"
        demo_customer "[]"] d a u
    by blast
qed



section \<open>The webhook dispatcher\<close>

lemma HandlerFunc_verified:
  assumes "rq_body r = Inr payload"
      and "ConstructEvent payload (rq_signature r) (hh_secret h) = Inr e"
  shows "HandlerFunc ConstructEvent h st r =
           (case hh_store h of
              Some LogEvent \<Rightarrow>
                (case LogEvent (hk_store st) (ev_ID e) of
                   (Some err, st') \<Rightarrow>
                     if err \<noteq> ErrEventExists then
                       (Some 500, st\<lparr>hk_store := st', hk_errh := hk_errh st @ [err]\<rparr>)
                     else (Some 202, st\<lparr>hk_store := st'\<rparr>)
                 | (None, st') \<Rightarrow> dispatch h e (st\<lparr>hk_store := st'\<rparr>))
            | None \<Rightarrow> dispatch h e st)"
  using assms by (simp add: HandlerFunc_def)

lemma PSQL_LogEvent_first:
  assumes "ev \<notin> set (db_events p)"
      and "db_fault p (db_clock p) = None"
      and "db_fault p (Suc (db_clock p)) = None"
  shows "PSQL_LogEvent p ev = (None, p\<lparr>db_clock := Suc (Suc (db_clock p)), db_events := db_events p @ [ev]\<rparr>)"
proof -
  have "filter (\<lambda>x. x = ev) (db_events p) = []"
    using assms(1) by (induction "db_events p") (auto simp: filter_empty_conv)
  then show ?thesis using assms(2,3)
    by (simp add: PSQL_LogEvent_def statement_def)
qed

lemma PSQL_LogEvent_again:
  assumes "ev \<in> set (db_events p)"
      and "db_fault p (db_clock p) = None"
  shows "PSQL_LogEvent p ev = (Some ErrEventExists, p\<lparr>db_clock := Suc (db_clock p)\<rparr>)"
proof -
  have "filter (\<lambda>x. x = ev) (db_events p) \<noteq> []"
    using assms(1) by (simp add: filter_empty_conv)
  then show ?thesis using assms(2)
    by (simp add: PSQL_LogEvent_def statement_def)
qed

lemma PSQL_LogEvent_failure:
  assumes "PSQL_LogEvent p ev = (Some err, p')"
  shows "db_events p' = db_events p"
  using assms
  by (auto simp: PSQL_LogEvent_def statement_def split: option.splits if_splits)

text \<open>
  C5.  With the PostgreSQL store behind the dispatcher, take two deliveries of verified
  events with the same id, the id not yet logged and the database answering.  The first
  delivery reaches the handler lookup and the handler registered for the event's type is
  called, once.  The second delivery is answered 202 whatever is registered, and calls
  nothing.  Whenever \<open>LogEvent\<close> fails with an error other than \<open>ErrEventExists\<close>, the
  request is answered 500, the error goes to the error callback and no handler is called.
\<close>

theorem webhook_dedup:
  assumes "hh_store h = Some PSQL_LogEvent"
      and "rq_body r1 = Inr payload1"
      and "ConstructEvent payload1 (rq_signature r1) (hh_secret h) = Inr e1"
      and "rq_body r2 = Inr payload2"
      and "ConstructEvent payload2 (rq_signature r2) (hh_secret h) = Inr e2"
      and "ev_ID e2 = ev_ID e1"
  shows "(ev_ID e1 \<notin> set (db_events (hk_store st))
          \<and> db_fault (hk_store st) (db_clock (hk_store st)) = None
          \<and> db_fault (hk_store st) (Suc (db_clock (hk_store st))) = None
          \<and> db_fault (hk_store st) (Suc (Suc (db_clock (hk_store st)))) = None
          \<longrightarrow> (\<forall>fn. hh_events h (ev_Type e1) = Some fn \<longrightarrow>
                   fst (HandlerFunc ConstructEvent h st r1) = None
                 \<and> hk_invoked (snd (HandlerFunc ConstructEvent h st r1)) = hk_invoked st @ [(fn, e1)])
             \<and> fst (HandlerFunc ConstructEvent h (snd (HandlerFunc ConstructEvent h st r1)) r2) = Some 202
             \<and> hk_invoked (snd (HandlerFunc ConstructEvent h (snd (HandlerFunc ConstructEvent h st r1)) r2))
                 = hk_invoked (snd (HandlerFunc ConstructEvent h st r1)))
       \<and> (\<forall>err p'. PSQL_LogEvent (hk_store st) (ev_ID e1) = (Some err, p') \<and> err \<noteq> ErrEventExists \<longrightarrow>
             HandlerFunc ConstructEvent h st r1 =
               (Some 500, st\<lparr>hk_store := p', hk_errh := hk_errh st @ [err]\<rparr>))"
proof (intro conjI impI allI)
  fix err p'
  assume "PSQL_LogEvent (hk_store st) (ev_ID e1) = (Some err, p') \<and> err \<noteq> ErrEventExists"
  then show "HandlerFunc ConstructEvent h st r1 =
               (Some 500, st\<lparr>hk_store := p', hk_errh := hk_errh st @ [err]\<rparr>)"
    using HandlerFunc_verified[where ConstructEvent=ConstructEvent and h=h and st=st, OF assms(2,3)]
      assms(1) by simp
next
  let ?p = "hk_store st"
  assume a: "ev_ID e1 \<notin> set (db_events ?p)
          \<and> db_fault ?p (db_clock ?p) = None
          \<and> db_fault ?p (Suc (db_clock ?p)) = None
          \<and> db_fault ?p (Suc (Suc (db_clock ?p))) = None"
  define p1 where "p1 = ?p\<lparr>db_clock := Suc (Suc (db_clock ?p)), db_events := db_events ?p @ [ev_ID e1]\<rparr>"
  define st1 where "st1 = st\<lparr>hk_store := p1\<rparr>"
  have l1: "PSQL_LogEvent ?p (ev_ID e1) = (None, p1)"
    using a PSQL_LogEvent_first[of "ev_ID e1" ?p] by (simp add: p1_def)
  have f1: "HandlerFunc ConstructEvent h st r1 = dispatch h e1 st1"
    using HandlerFunc_verified[where ConstructEvent=ConstructEvent and h=h and st=st, OF assms(2,3)]
      assms(1) l1 by (simp add: st1_def)
  let ?s1 = "snd (HandlerFunc ConstructEvent h st r1)"
  have s1: "hk_store ?s1 = p1"
    using f1 by (simp add: dispatch_def st1_def split: option.splits)
  have l2: "PSQL_LogEvent p1 (ev_ID e2) = (Some ErrEventExists, p1\<lparr>db_clock := Suc (db_clock p1)\<rparr>)"
    using a assms(6) PSQL_LogEvent_again[of "ev_ID e2" p1] by (simp add: p1_def)
  have f2: "HandlerFunc ConstructEvent h ?s1 r2 = (Some 202, ?s1\<lparr>hk_store := p1\<lparr>db_clock := Suc (db_clock p1)\<rparr>\<rparr>)"
    using HandlerFunc_verified[where ConstructEvent=ConstructEvent and h=h and st="?s1", OF assms(4,5)]
      assms(1) l2 s1 by simp
  show "fst (HandlerFunc ConstructEvent h ?s1 r2) = Some 202"
    using f2 by simp
  show "hk_invoked (snd (HandlerFunc ConstructEvent h ?s1 r2)) = hk_invoked ?s1"
    using f2 by simp
  fix fn
  assume "hh_events h (ev_Type e1) = Some fn"
  then show "fst (HandlerFunc ConstructEvent h st r1) = None"
    and "hk_invoked ?s1 = hk_invoked st @ [(fn, e1)]"
    using f1 by (simp_all add: dispatch_def st1_def)
qed

lemmas hook_defs = HandlerFunc_def dispatch_def Handle_def NewHookHandler_def demo_verify_def
  demo_delivery_def demo_event_def demo_hook_state_def PSQL_LogEvent_def statement_def newPSQL_def

theorem webhook_dedup_witness:
  "fst (HandlerFunc demo_verify (Handle (NewHookHandler ''whsec'' (Some PSQL_LogEvent)) ''invoice.paid'' (7::nat))
         (demo_hook_state newPSQL) demo_delivery) = None
 \<and> hk_invoked (snd (HandlerFunc demo_verify
         (Handle (NewHookHandler ''whsec'' (Some PSQL_LogEvent)) ''invoice.paid'' (7::nat))
         (demo_hook_state newPSQL) demo_delivery)) = [(7, demo_event)]
 \<and> HandlerFunc demo_verify (Handle (NewHookHandler ''whsec'' (Some PSQL_LogEvent)) ''invoice.paid'' (7::nat))
      (snd (HandlerFunc demo_verify
         (Handle (NewHookHandler ''whsec'' (Some PSQL_LogEvent)) ''invoice.paid'' (7::nat))
         (demo_hook_state newPSQL) demo_delivery)) demo_delivery
    = (Some 202, \<lparr>hk_store = newPSQL\<lparr>db_events := [''evt_1''], db_clock := 3\<rparr>, hk_errh = [],
                  hk_invoked = [(7, demo_event)]\<rparr>)
 \<and> HandlerFunc demo_verify (Handle (NewHookHandler ''whsec'' (Some PSQL_LogEvent)) ''invoice.paid'' (7::nat))
      (demo_hook_state (newPSQL\<lparr>db_fault := (\<lambda>_. Some (OtherError ''connection refused''))\<rparr>))
      demo_delivery
    = (Some 500, \<lparr>hk_store = newPSQL\<lparr>db_fault := (\<lambda>_. Some (OtherError ''connection refused'')),
                                       db_clock := 1\<rparr>,
                  hk_errh = [OtherError ''connection refused''], hk_invoked = []\<rparr>)"
proof -
  let ?h = "Handle (NewHookHandler ''whsec'' (Some PSQL_LogEvent)) ''invoice.paid'' (7::nat)"
  let ?down = "newPSQL\<lparr>db_fault := (\<lambda>_. Some (OtherError ''connection refused''))\<rparr>"
  have h1: "hh_store ?h = Some PSQL_LogEvent" by (simp add: hook_defs)
  have h2: "rq_body demo_delivery = Inr ''evt_1 invoice.paid''" by (simp add: hook_defs)
  have h3: "demo_verify ''evt_1 invoice.paid'' (rq_signature demo_delivery) (hh_secret ?h) = Inr demo_event"
    by (simp add: hook_defs)
  have reg: "hh_events ?h (ev_Type demo_event) = Some 7" by (simp add: hook_defs)
  have fresh: "ev_ID demo_event \<notin> set (db_events (hk_store (demo_hook_state newPSQL)))
          \<and> db_fault (hk_store (demo_hook_state newPSQL)) (db_clock (hk_store (demo_hook_state newPSQL))) = None
          \<and> db_fault (hk_store (demo_hook_state newPSQL)) (Suc (db_clock (hk_store (demo_hook_state newPSQL)))) = None
          \<and> db_fault (hk_store (demo_hook_state newPSQL)) (Suc (Suc (db_clock (hk_store (demo_hook_state newPSQL))))) = None"
    by (simp add: hook_defs)
  have fail: "PSQL_LogEvent (hk_store (demo_hook_state ?down)) (ev_ID demo_event)
                = (Some (OtherError ''connection refused''), ?down\<lparr>db_clock := 1\<rparr>)
              \<and> OtherError ''connection refused'' \<noteq> ErrEventExists"
    by (simp add: hook_defs)
  have second: "snd (HandlerFunc demo_verify ?h (snd (HandlerFunc demo_verify ?h (demo_hook_state newPSQL) demo_delivery)) demo_delivery)
        = \<lparr>hk_store = newPSQL\<lparr>db_events := [''evt_1''], db_clock := 3\<rparr>, hk_errh = [],
                  hk_invoked = [(7, demo_event)]\<rparr>"
    by (simp add: hook_defs)
  from webhook_dedup[where ConstructEvent=demo_verify and h="?h" and st="demo_hook_state newPSQL",
         OF h1 h2 h3 h2 h3 refl] fresh reg
  have A: "fst (HandlerFunc demo_verify ?h (demo_hook_state newPSQL) demo_delivery) = None
         \<and> hk_invoked (snd (HandlerFunc demo_verify ?h (demo_hook_state newPSQL) demo_delivery))
             = hk_invoked (demo_hook_state newPSQL) @ [(7, demo_event)]
         \<and> fst (HandlerFunc demo_verify ?h (snd (HandlerFunc demo_verify ?h (demo_hook_state newPSQL) demo_delivery)) demo_delivery) = Some 202"
    by blast
  from webhook_dedup[where ConstructEvent=demo_verify and h="?h" and st="demo_hook_state ?down",
         OF h1 h2 h3 h2 h3 refl] fail
  have B: "HandlerFunc demo_verify ?h (demo_hook_state ?down) demo_delivery
            = (Some 500, (demo_hook_state ?down)\<lparr>hk_store := ?down\<lparr>db_clock := 1\<rparr>,
                 hk_errh := hk_errh (demo_hook_state ?down) @ [OtherError ''connection refused'']\<rparr>)"
    by blast
  show ?thesis using A B second
    by (simp add: demo_hook_state_def prod_eq_iff)
qed

text \<open>
  C9.  A dispatcher made with a nil store never calls \<open>LogEvent\<close>: every verified
  delivery goes straight to the handler lookup, so a second delivery of the same event
  calls the registered handler a second time, and no request is ever answered 202.
\<close>

theorem nil_store_no_dedup:
  assumes "hh_store h = None"
  shows "fst (HandlerFunc ConstructEvent h st r) \<noteq> Some 202
       \<and> hk_store (snd (HandlerFunc ConstructEvent h st r)) = hk_store st
       \<and> (\<forall>payload e. rq_body r = Inr payload
             \<and> ConstructEvent payload (rq_signature r) (hh_secret h) = Inr e \<longrightarrow>
             HandlerFunc ConstructEvent h st r = dispatch h e st
           \<and> (\<forall>fn. hh_events h (ev_Type e) = Some fn \<longrightarrow>
                 hk_invoked (snd (HandlerFunc ConstructEvent h (snd (HandlerFunc ConstructEvent h st r)) r))
                   = hk_invoked st @ [(fn, e), (fn, e)]))"
  using assms
  by (auto simp: HandlerFunc_def dispatch_def split: sum.splits option.splits)

theorem nil_store_no_dedup_witness:
  "HandlerFunc demo_verify (Handle (NewHookHandler ''whsec'' None) ''invoice.paid'' (7::nat))
      (demo_hook_state ()) demo_delivery
    = (None, \<lparr>hk_store = (), hk_errh = [], hk_invoked = [(7, demo_event)]\<rparr>)
 \<and> hk_invoked (snd (HandlerFunc demo_verify (Handle (NewHookHandler ''whsec'' None) ''invoice.paid'' (7::nat))
      (snd (HandlerFunc demo_verify (Handle (NewHookHandler ''whsec'' None) ''invoice.paid'' (7::nat))
         (demo_hook_state ()) demo_delivery)) demo_delivery))
    = [(7, demo_event), (7, demo_event)]"
proof -
  let ?h = "Handle (NewHookHandler ''whsec'' None) ''invoice.paid'' (7::nat) :: (unit, nat) HookHandler"
  have h1: "hh_store ?h = None" by (simp add: hook_defs)
  have h2: "rq_body demo_delivery = Inr ''evt_1 invoice.paid''
          \<and> demo_verify ''evt_1 invoice.paid'' (rq_signature demo_delivery) (hh_secret ?h) = Inr demo_event"
    by (simp add: hook_defs)
  have reg: "hh_events ?h (ev_Type demo_event) = Some 7" by (simp add: hook_defs)
  from nil_store_no_dedup[OF h1, of demo_verify "demo_hook_state ()" demo_delivery] h2 reg
  have "HandlerFunc demo_verify ?h (demo_hook_state ()) demo_delivery = dispatch ?h demo_event (demo_hook_state ())
      \<and> hk_invoked (snd (HandlerFunc demo_verify ?h (snd (HandlerFunc demo_verify ?h (demo_hook_state ()) demo_delivery)) demo_delivery))
          = hk_invoked (demo_hook_state ()) @ [(7, demo_event), (7, demo_event)]"
    by blast
  then have E1: "HandlerFunc demo_verify ?h (demo_hook_state ()) demo_delivery = dispatch ?h demo_event (demo_hook_state ())"
    and E2: "hk_invoked (snd (HandlerFunc demo_verify ?h (snd (HandlerFunc demo_verify ?h (demo_hook_state ()) demo_delivery)) demo_delivery))
          = hk_invoked (demo_hook_state ()) @ [(7, demo_event), (7, demo_event)]"
    by blast+
  have F1: "HandlerFunc demo_verify ?h (demo_hook_state ()) demo_delivery
      = (None, \<lparr>hk_store = (), hk_errh = [], hk_invoked = [(7, demo_event)]\<rparr>)"
    using E1 reg by (simp add: dispatch_def demo_hook_state_def)
  have F2: "hk_invoked (snd (HandlerFunc demo_verify ?h (snd (HandlerFunc demo_verify ?h (demo_hook_state ()) demo_delivery)) demo_delivery))
          = [(7, demo_event), (7, demo_event)]"
    using E2 by (simp add: demo_hook_state_def)
  show ?thesis by (rule conjI[OF F1 F2])
qed



section \<open>The default payment method in the two stores\<close>

lemma defaults_of_clear_same: "defaults_of cid (clear_defaults cid rows) = []"
  by (induction rows) (auto simp: defaults_of_def clear_defaults_def)

lemma defaults_of_clear_other:
  "cid' \<noteq> cid \<Longrightarrow> defaults_of cid' (clear_defaults cid rows) = defaults_of cid' rows"
  by (induction rows) (auto simp: defaults_of_def clear_defaults_def)

lemma map_row_id_clear: "map row_id (clear_defaults cid rows) = map row_id rows"
  by (induction rows) (simp_all add: clear_defaults_def)

lemma at_most_one_default_iff:
  "at_most_one_default rows \<longleftrightarrow> (\<forall>cid. length (defaults_of cid rows) \<le> 1)"
proof
  assume a: "at_most_one_default rows"
  show "\<forall>cid. length (defaults_of cid rows) \<le> 1"
  proof
    fix cid
    show "length (defaults_of cid rows) \<le> 1"
    proof (cases "cid \<in> row_customer_id ` set rows")
      case True
      then show ?thesis using a by (auto simp: at_most_one_default_def list_all_iff)
    next
      case False
      then have "defaults_of cid rows = []"
        by (auto simp: defaults_of_def filter_empty_conv)
      then show ?thesis by simp
    qed
  qed
next
  assume "\<forall>cid. length (defaults_of cid rows) \<le> 1"
  then show "at_most_one_default rows"
    by (simp add: at_most_one_default_def list_all_iff)
qed

lemma putPaymentMethod_rows:
  "db_payment_methods (snd (putPaymentMethod p v)) = db_payment_methods p
 \<or> db_payment_methods (snd (putPaymentMethod p v)) =
      db_payment_methods p @
        [\<lparr>row_id = pm_ID (emb_pm v), row_customer_id = cus_ID (pm_Customer (emb_pm v)),
          row_type = pm_Type (emb_pm v), row_is_default = False, row_created = pm_Created (emb_pm v)\<rparr>]
 \<or> Default v \<and> (db_payment_methods (snd (putPaymentMethod p v)) =
      clear_defaults (cus_ID (pm_Customer (emb_pm v))) (db_payment_methods p)
   \<or> db_payment_methods (snd (putPaymentMethod p v)) =
      clear_defaults (cus_ID (pm_Customer (emb_pm v))) (db_payment_methods p) @
        [\<lparr>row_id = pm_ID (emb_pm v), row_customer_id = cus_ID (pm_Customer (emb_pm v)),
          row_type = pm_Type (emb_pm v), row_is_default = True, row_created = pm_Created (emb_pm v)\<rparr>])"
  by (auto simp: putPaymentMethod_def insert_row_def statement_def split: option.splits)

lemma putPaymentMethod_invariant:
  assumes "at_most_one_default (db_payment_methods p)"
  shows "at_most_one_default (db_payment_methods (snd (putPaymentMethod p v)))"
proof -
  have a: "\<forall>cid. length (defaults_of cid (db_payment_methods p)) \<le> 1"
    using assms by (simp add: at_most_one_default_iff)
  have "length (defaults_of cid (db_payment_methods (snd (putPaymentMethod p v)))) \<le> 1" for cid
  proof (cases "cid = cus_ID (pm_Customer (emb_pm v))")
    case True
    then show ?thesis
      using putPaymentMethod_rows[of p v] a defaults_of_clear_same[of cid "db_payment_methods p"]
      by (auto simp: defaults_of_def)
  next
    case False
    then show ?thesis
      using putPaymentMethod_rows[of p v] a
        defaults_of_clear_other[of cid "cus_ID (pm_Customer (emb_pm v))" "db_payment_methods p"]
      by (auto simp: defaults_of_def)
  qed
  then show ?thesis by (simp add: at_most_one_default_iff)
qed

text \<open>
  The PostgreSQL store keeps the invariant: whatever payment methods are put, and
  whichever statements fail, no customer has more than one default row afterwards.
\<close>

theorem PSQL_at_most_one_default:
  assumes "at_most_one_default (db_payment_methods p)"
  shows "at_most_one_default (db_payment_methods (putPaymentMethods p vs))"
  using assms
  by (induction vs arbitrary: p) (simp_all add: putPaymentMethod_invariant)

text \<open>
  Putting a payment method that is new to the table and is the default leaves exactly
  that row as the customer's default, the database answering.
\<close>

theorem PSQL_new_default:
  assumes "Default v"
      and "pm_ID (emb_pm v) \<notin> row_id ` set (db_payment_methods p)"
      and "db_fault p (db_clock p) = None"
      and "db_fault p (Suc (db_clock p)) = None"
      and "db_fault p (Suc (Suc (db_clock p))) = None"
  shows "fst (putPaymentMethod p v) = None
       \<and> defaults_of (cus_ID (pm_Customer (emb_pm v))) (db_payment_methods (snd (putPaymentMethod p v)))
           = [\<lparr>row_id = pm_ID (emb_pm v), row_customer_id = cus_ID (pm_Customer (emb_pm v)),
               row_type = pm_Type (emb_pm v), row_is_default = True,
               row_created = pm_Created (emb_pm v)\<rparr>]"
proof -
  let ?cid = "cus_ID (pm_Customer (emb_pm v))"
  have ids: "row_id ` set (clear_defaults ?cid (db_payment_methods p)) = row_id ` set (db_payment_methods p)"
    using map_row_id_clear[of ?cid "db_payment_methods p"] by (metis set_map)
  have sel: "select_id (clear_defaults ?cid (db_payment_methods p)) (pm_ID (emb_pm v)) = []"
  proof -
    have "filter (\<lambda>r. row_id r = pm_ID (emb_pm v)) (clear_defaults ?cid (db_payment_methods p)) = []"
      using assms(2) ids by (auto simp: filter_empty_conv) (metis imageI)
    then show ?thesis by (simp add: select_id_def)
  qed
  show ?thesis
    using assms sel ids defaults_of_clear_same[of ?cid "db_payment_methods p"]
    by (auto simp: putPaymentMethod_def insert_row_def statement_def defaults_of_def)
qed

text \<open>
  C3.  The in-memory store appends every payment method it is given and clears no
  flag: after the \<open>Put\<close> of two default payment methods of one customer, the customer
  has two payment methods with \<open>Default\<close> set, and \<open>DefaultPaymentMethod\<close> still
  answers with the older one.
\<close>

theorem TestStore_two_defaults:
  "filter Default (ts_paymentMethods
       (snd (TestStore_Put (snd (TestStore_Put newTestStore (RPaymentMethod (demo_pm_of ''pm_1''))))
                           (RPaymentMethod (demo_pm_of ''pm_2'')))) ''cus_1'')
     = [demo_pm_of ''pm_1'', demo_pm_of ''pm_2'']
 \<and> fst (TestStore_DefaultPaymentMethod
       (snd (TestStore_Put (snd (TestStore_Put newTestStore (RPaymentMethod (demo_pm_of ''pm_1''))))
                           (RPaymentMethod (demo_pm_of ''pm_2'')))) demo_customer)
     = Some (demo_pm_of ''pm_1'')"
  by (simp add: newTestStore_def demo_pm_of_def demo_stripe_customer_def
        TestStore_DefaultPaymentMethod_def demo_customer_def)


text \<open>
  Putting a default payment method that the table already holds clears the customer's
  flags and writes nothing back: the same payment method put twice leaves the customer
  with no default row.
\<close>

lemma PSQL_same_default_twice:
  "defaults_of ''cus_1'' (db_payment_methods (putPaymentMethods newPSQL [demo_pm_of ''pm_1''])) =
     [\<lparr>row_id = ''pm_1'', row_customer_id = ''cus_1'', row_type = ''card'', row_is_default = True,
       row_created = 0\<rparr>]
 \<and> defaults_of ''cus_1''
       (db_payment_methods (putPaymentMethods newPSQL [demo_pm_of ''pm_1'', demo_pm_of ''pm_1''])) = []"
  by (simp add: putPaymentMethod_def insert_row_def statement_def defaults_of_def newPSQL_def
        demo_pm_of_def demo_stripe_customer_def clear_defaults_def select_id_def)


section \<open>The parameter encoder\<close>

lemma encodeToPairs_pure:
  "encodeToPairs parent m = (if no_nil_entry m then Returns (pairs_of parent m) else Panics)"
  "encodeSliceToPairs key i xs = (if no_nil_elem xs then Returns (slice_pairs_of key i xs) else Panics)"
  by (induction parent m and key i xs rule: encodeToPairs_encodeSliceToPairs.induct) simp_all

lemma Encode_pure:
  "Encode p = (if no_nil_entry p then Returns (Join (sort (map encode (pairs_of [] p))) ''&'') else Panics)"
  by (simp add: Encode_def encodeToPairs_pure)

lemma no_nil_entry_Cons: "no_nil_entry (e # m) = (entry_ok e \<and> no_nil_entry m)"
  by (cases e; cases "snd e") (auto simp: entry_ok_def)

lemma pairs_of_Cons: "pairs_of parent (e # m) = entry_pairs parent e @ pairs_of parent m"
  by (cases e; cases "snd e") (auto simp: entry_pairs_def)

lemma no_nil_entry_all: "no_nil_entry m = (\<forall>e \<in># mset m. entry_ok e)"
  by (induction m) (auto simp: no_nil_entry_Cons)

lemma mset_pairs_of: "mset (pairs_of parent m) = (\<Sum>e \<in># mset m. mset (entry_pairs parent e))"
  by (induction m) (auto simp: pairs_of_Cons)

lemma perm_no_nil_entry: "mset m = mset m' \<Longrightarrow> no_nil_entry m = no_nil_entry m'"
  by (simp add: no_nil_entry_all)

lemma perm_pairs_of: "mset m = mset m' \<Longrightarrow> mset (pairs_of parent m) = mset (pairs_of parent m')"
  by (simp add: mset_pairs_of)

lemma Sprintf_entries_map: "Sprintf_entries m = map (\<lambda>e. (fst e, Sprintf_v (snd e))) m"
  by (induction m) auto

lemma wf_entries_all: "wf_entries m = (\<forall>e \<in># mset m. wf_val (snd e))"
  by (induction m) auto

lemma filter_key_distinct:
  "distinct (map fst l) \<Longrightarrow> k \<in> set l \<Longrightarrow> filter (\<lambda>x. fst k = fst x) l = [k]"
proof (induction l)
  case Nil
  then show ?case by simp
next
  case (Cons a l)
  show ?case
  proof (cases "k = a")
    case True
    have "filter (\<lambda>x. fst a = fst x) l = []"
      using Cons.prems(1) by (auto simp: filter_empty_conv image_iff)
    with True show ?thesis by simp
  next
    case False
    with Cons.prems have "k \<in> set l" by simp
    moreover have "fst k \<noteq> fst a" using Cons.prems(1) \<open>k \<in> set l\<close> by (auto simp: image_iff)
    ultimately show ?thesis using Cons by simp
  qed
qed

lemma sort_key_perm:
  fixes a b :: "(string \<times> string) list"
  assumes "mset a = mset b" and "distinct (map fst a)"
  shows "sort_key fst a = sort_key fst b"
proof -
  have db: "distinct (map fst b)"
    using assms by (metis mset_eq_imp_distinct_iff mset_map)
  have sab: "set a = set b" using assms(1) by (metis mset_eq_setD)
  show ?thesis
  proof (rule properties_for_sort_key)
    show "mset (sort_key fst b) = mset a" using assms(1) by simp
    show "sorted (map fst (sort_key fst b))" by simp
    fix k assume k: "k \<in> set (sort_key fst b)"
    then have kb: "k \<in> set b" by simp
    have "distinct (map fst (sort_key fst b))" using db
      by (metis distinct_sort mset_eq_imp_distinct_iff mset_map mset_sort)
    then have "filter (\<lambda>x. fst k = fst x) (sort_key fst b) = [k]"
      using k by (rule filter_key_distinct)
    moreover have "filter (\<lambda>x. fst k = fst x) a = [k]"
      using assms(2) kb sab by (intro filter_key_distinct) auto
    ultimately show "filter (\<lambda>x. fst k = fst x) (sort_key fst b) = filter (\<lambda>x. fst k = fst x) a"
      by simp
  qed
qed


lemma slice_pairs_of_Cons:
  "slice_pairs_of key i (v # rest) = slice_pairs_of key i [v] @ slice_pairs_of key (Suc i) rest"
  by (cases v) auto

lemma no_nil_elem_Cons: "no_nil_elem (v # rest) = (no_nil_elem [v] \<and> no_nil_elem rest)"
  by (cases v) auto

lemma same_props:
  "same v w \<Longrightarrow> wf_val v \<longrightarrow>
     (wf_val w \<and> Sprintf_v v = Sprintf_v w
      \<and> (\<forall>k. entry_ok (k, v) = entry_ok (k, w))
      \<and> (\<forall>parent k. image_mset encode (mset (entry_pairs parent (k, v)))
                     = image_mset encode (mset (entry_pairs parent (k, w))))
      \<and> no_nil_elem [v] = no_nil_elem [w]
      \<and> (\<forall>key i. image_mset encode (mset (slice_pairs_of key i [v]))
                  = image_mset encode (mset (slice_pairs_of key i [w]))))"
  "same_elems xs ys \<Longrightarrow> wf_elems xs \<longrightarrow>
     (wf_elems ys \<and> Sprintf_elems xs = Sprintf_elems ys
      \<and> no_nil_elem xs = no_nil_elem ys
      \<and> (\<forall>key i. image_mset encode (mset (slice_pairs_of key i xs))
                  = image_mset encode (mset (slice_pairs_of key i ys))))"
  "same_entries m m' \<Longrightarrow> wf_entries m \<longrightarrow>
     (wf_entries m' \<and> map fst m = map fst m' \<and> Sprintf_entries m = Sprintf_entries m'
      \<and> no_nil_entry m = no_nil_entry m'
      \<and> (\<forall>parent. image_mset encode (mset (pairs_of parent m))
                   = image_mset encode (mset (pairs_of parent m'))))"
proof (induction rule: same_same_elems_same_entries.inducts)
  case (same_Params m m' m'')
  show ?case
  proof
    assume wf: "wf_val (VParams m)"
    then have d: "distinct (map fst m)" and wfm: "wf_entries m" by simp_all
    from same_Params.IH wfm
    have wf': "wf_entries m'" and keys: "map fst m = map fst m'"
      and spr: "Sprintf_entries m = Sprintf_entries m'"
      and nn: "no_nil_entry m = no_nil_entry m'"
      and enc: "\<And>parent. image_mset encode (mset (pairs_of parent m))
                   = image_mset encode (mset (pairs_of parent m'))"
      by simp_all
    have perm: "mset m' = mset m''" by (rule same_Params.hyps)
    have d': "distinct (map fst m')" using d keys by simp
    have d'': "distinct (map fst m'')"
      using d' perm by (metis mset_eq_imp_distinct_iff mset_map)
    have wf'': "wf_entries m''" using wf' perm by (simp add: wf_entries_all)
    have mspr: "mset (Sprintf_entries m') = mset (Sprintf_entries m'')"
      using perm by (simp add: Sprintf_entries_map)
    have dspr: "distinct (map fst (Sprintf_entries m'))"
      using d' by (simp add: Sprintf_entries_map comp_def)
    have srt: "sort_key fst (Sprintf_entries m) = sort_key fst (Sprintf_entries m'')"
      using sort_key_perm[OF mspr dspr] spr by simp
    have nn'': "no_nil_entry m = no_nil_entry m''"
      using nn perm_no_nil_entry[OF perm] by simp
    have enc'': "image_mset encode (mset (pairs_of parent m))
                   = image_mset encode (mset (pairs_of parent m''))" for parent
      using enc[of parent] perm_pairs_of[OF perm, of parent] by simp
    show "wf_val (VParams m'') \<and> Sprintf_v (VParams m) = Sprintf_v (VParams m'')
      \<and> (\<forall>k. entry_ok (k, VParams m) = entry_ok (k, VParams m''))
      \<and> (\<forall>parent k. image_mset encode (mset (entry_pairs parent (k, VParams m)))
                     = image_mset encode (mset (entry_pairs parent (k, VParams m''))))
      \<and> no_nil_elem [VParams m] = no_nil_elem [VParams m'']
      \<and> (\<forall>key i. image_mset encode (mset (slice_pairs_of key i [VParams m]))
                  = image_mset encode (mset (slice_pairs_of key i [VParams m''])))"
      using d'' wf'' srt nn'' enc'' by (simp add: entry_ok_def entry_pairs_def)
  qed
next
  case (same_Slice xs ys)
  then show ?case by (simp add: entry_ok_def entry_pairs_def encode_def)
next
  case (same_elems_Cons x y xs ys)
  show ?case
  proof
    assume "wf_elems (x # xs)"
    then have wx: "wf_val x" and wxs: "wf_elems xs" by simp_all
    from same_elems_Cons.IH wx wxs
    show "wf_elems (y # ys) \<and> Sprintf_elems (x # xs) = Sprintf_elems (y # ys)
      \<and> no_nil_elem (x # xs) = no_nil_elem (y # ys)
      \<and> (\<forall>key i. image_mset encode (mset (slice_pairs_of key i (x # xs)))
                  = image_mset encode (mset (slice_pairs_of key i (y # ys))))"
      by (simp add: slice_pairs_of_Cons[of _ _ x xs] slice_pairs_of_Cons[of _ _ y ys]
            no_nil_elem_Cons[of x xs] no_nil_elem_Cons[of y ys])
  qed
next
  case (same_entries_Cons v w m m' k)
  show ?case
  proof
    assume "wf_entries ((k, v) # m)"
    then have wv: "wf_val v" and wm: "wf_entries m" by simp_all
    from same_entries_Cons.IH wv wm
    show "wf_entries ((k, w) # m') \<and> map fst ((k, v) # m) = map fst ((k, w) # m')
      \<and> Sprintf_entries ((k, v) # m) = Sprintf_entries ((k, w) # m')
      \<and> no_nil_entry ((k, v) # m) = no_nil_entry ((k, w) # m')
      \<and> (\<forall>parent. image_mset encode (mset (pairs_of parent ((k, v) # m)))
                   = image_mset encode (mset (pairs_of parent ((k, w) # m'))))"
      by (simp add: pairs_of_Cons no_nil_entry_Cons)
  qed
qed (simp_all add: entry_ok_def entry_pairs_def)

lemma sort_cong_mset: "mset xs = mset ys \<Longrightarrow> sort xs = sort (ys :: string list)"
  by (metis mset_sort sorted_sort properties_for_sort)

lemma same_Encode:
  assumes "same (VParams p) (VParams q)" and "wf_val (VParams p)"
  shows "Encode p = Encode q"
proof -
  from same_props(1)[OF assms(1)] assms(2)
  have ok: "entry_ok ([], VParams p) = entry_ok ([], VParams q)"
    and enc: "image_mset encode (mset (entry_pairs [] ([], VParams p)))
            = image_mset encode (mset (entry_pairs [] ([], VParams q)))"
    by blast+
  have nn: "no_nil_entry p = no_nil_entry q" using ok by (simp add: entry_ok_def)
  have "mset (map encode (pairs_of [] p)) = mset (map encode (pairs_of [] q))"
    using enc by (simp add: entry_pairs_def child_key_def)
  then have "sort (map encode (pairs_of [] p)) = sort (map encode (pairs_of [] q))"
    by (rule sort_cong_mset)
  with nn show ?thesis by (simp add: Encode_pure)
qed


text \<open>
  C6.  \<open>Encode\<close> does not depend on the order in which the maps are ranged over: two
  inputs that are the same Go value, listing the entries of their maps in different
  orders at any depth, give the same result, byte for byte.  When it returns, the result
  is the encoded pairs joined with \<open>&\<close>, in ascending lexicographic (bytewise) order.
  The input \<open>{"a": {"b": 1}, "c": [1, 2]}\<close> gives \<open>a[b]=1&c[0]=1&c[1]=2\<close>.
\<close>

theorem Encode_canonical:
  assumes "same (VParams p) (VParams q)" and "wf_val (VParams p)"
  shows "Encode p = Encode q
       \<and> (\<forall>ps. encodeToPairs [] p = Returns ps \<longrightarrow>
            (\<exists>xs. Encode p = Returns (Join xs ''&'') \<and> sorted xs \<and> mset xs = mset (map encode ps)))
       \<and> Encode spec_example = Returns ''a[b]=1&c[0]=1&c[1]=2''"
proof (intro conjI allI impI)
  show "Encode p = Encode q" using assms by (rule same_Encode)
next
  fix ps assume "encodeToPairs [] p = Returns ps"
  then have "Encode p = Returns (Join (sort (map encode ps)) ''&'')"
    by (simp add: Encode_def)
  then show "\<exists>xs. Encode p = Returns (Join xs ''&'') \<and> sorted xs \<and> mset xs = mset (map encode ps)"
    by (intro exI[of _ "sort (map encode ps)"]) simp
next
  show "Encode spec_example = Returns ''a[b]=1&c[0]=1&c[1]=2''"
    by (simp add: spec_example_def Encode_def encode_def child_key_def FormatInt_def digit_char_def
          shouldEscape_def)
qed

theorem Encode_canonical_witness:
  "Encode spec_example_reordered = Encode spec_example
 \<and> Encode spec_example_reordered = Returns ''a[b]=1&c[0]=1&c[1]=2''"
proof -
  have se: "same_entries spec_example spec_example"
    unfolding spec_example_def
    by (intro same_entries_Cons same_entries_Nil same_Params[where m'="[(''b'', VInt 1)]"]
          same_Slice same_elems_Cons same_elems_Nil same_Int) simp_all
  have "mset spec_example = mset spec_example_reordered"
    by (simp add: spec_example_def spec_example_reordered_def)
  with se have s: "same (VParams spec_example) (VParams spec_example_reordered)"
    by (rule same_Params)
  have w: "wf_val (VParams spec_example)" by (simp add: spec_example_def)
  from Encode_canonical[OF s w]
  have "Encode spec_example = Encode spec_example_reordered"
    and "Encode spec_example = Returns ''a[b]=1&c[0]=1&c[1]=2''"
    by blast+
  then show ?thesis by metis
qed

text \<open>
  The claim as stated fails on both kinds of value it is about: a struct value is
  encoded and \<open>Encode\<close> succeeds, and a nil map entry makes \<open>Encode\<close> panic.  Neither
  gives an error.
\<close>

theorem Encode_other_kinds_counterexample:
  "Encode [(''a'', VOther ''{}'')] = Returns ''a=%7B%7D'' \<and> Encode [(''a'', VNil)] = Panics"
  by (simp add: Encode_def encode_def child_key_def shouldEscape_def upperhex_def)

text \<open>
  C8, as the code has it.  \<open>Encode\<close> returns a string and has no error result.  A value
  of any kind other than \<open>Params\<close> and slice is encoded like a scalar, as the one pair
  of its key and the text \<open>%v\<close> prints for it; and on every input in which no map entry
  holds the nil interface, \<open>Encode\<close> returns.
\<close>

theorem Encode_returns:
  "(no_nil_entry p \<longrightarrow> (\<exists>s. Encode p = Returns s))
 \<and> Encode [(k, VOther s)] = Returns (k @ ''='' @ QueryEscape s)
 \<and> Encode [(k, VString s)] = Returns (k @ ''='' @ QueryEscape s)"
  by (simp add: Encode_pure encode_def child_key_def)

theorem Encode_returns_witness:
  "no_nil_entry [(''t'', VOther ''2021-01-01''), (''xs'', VSlice [VNil, VInt 3])]
 \<and> (\<exists>s. Encode [(''t'', VOther ''2021-01-01''), (''xs'', VSlice [VNil, VInt 3])] = Returns s)"
  using Encode_returns[of "[(''t'', VOther ''2021-01-01''), (''xs'', VSlice [VNil, VInt 3])]"]
  by simp



section \<open>The tax-rate loaders\<close>

text \<open>The test of \<open>scanlines\<close>, for both readers; and a comment that ends the input
  without a newline, on which \<open>loadIds\<close> of tax.go does not return.\<close>

lemma scanlines_test:
  "lines_of test_input = [''line_1'', ''line_2'', ''line_3'', ''line_4'']"
  "loadIds test_input = Some [''line_1'', ''line_2'', ''line_3'', ''line_4'']"
  "lines_of (''txr_uk'' @ newline @ ''# last line'') = [''txr_uk'']"
  "loadIds (''txr_uk'' @ newline @ ''# last line'') = None"
  by (simp_all add: lines_of_def test_input_def newline_def is_blank_def)


























lemmas loader_defs = demo_get_def newline_def is_blank_def TaxRate_Load_def TaxRate_Endpoint_def
  taxRateEndpoint_def new_TaxRate_def respCode2xx_def Client_Error_def fetch_fails_def fetched_def
  succeeded_def new_ids_def distinct_keys_def no_taxes_def rate_uk_def rate_uk2_def rate_de_def
  merge_rate_def




text \<open>
  \<open>Reload\<close> of tax.go merges every \<open>TaxRate\<close> it made, whether or not its fetch
  succeeded: a rate whose fetch failed is entered as it was made, under the empty
  jurisdiction, and its id is marked as loaded.  The earlier loader enters nothing for it.
\<close>

lemma Reload_merges_failed:
  "LoadTaxRates demo_get (''txr_uk'' @ newline @ ''txr_gone'')
     = Some (None, {#StripeError ''404 Not Found'' ''no such tax rate''#},
             \<lparr>t_ids = {''txr_gone'', ''txr_uk''},
              t_rates = [''uk'' \<mapsto> rate_uk, [] \<mapsto> new_TaxRate ''txr_gone'']\<rparr>)"
  "LoadTaxes demo_get demo_msg (''txr_uk'' @ newline @ ''txr_gone'')
     = (None, [OtherError ''failed to load tax_rate txr_gone: no such tax rate''],
        \<lparr>t_ids = {''txr_uk''}, t_rates = [''uk'' \<mapsto> rate_uk]\<rparr>)"
  by (simp_all add: LoadTaxRates_def Reload_def LoadTaxes_def Reload_scanlines_def loadTaxRate_def
        demo_msg_def loader_defs List.map_filter_simps)


end
